theory Spec2Isabelle
  imports Main "HOL-Library.Char_ord" "HOL-Library.List_Lexorder"
begin

section \<open>JavaScript strings\<close>

text \<open>
  An optional string field of a JSON payload is a \<open>string option\<close>; \<open>None\<close> is
  \<open>undefined\<close>. A JavaScript condition on such a field holds iff the field is present
  and not the empty string.
\<close>

definition truthy :: "string option \<Rightarrow> bool" where
  "truthy v = (case v of None \<Rightarrow> False | Some s \<Rightarrow> s \<noteq> [])"

definition str_of :: "string option \<Rightarrow> string" where
  "str_of v = (case v of None \<Rightarrow> [] | Some s \<Rightarrow> s)"

definition startsWith :: "string \<Rightarrow> string \<Rightarrow> bool" where
  "startsWith s pre = (take (length pre) s = pre)"

definition endsWith :: "string \<Rightarrow> string \<Rightarrow> bool" where
  "endsWith s suf = (length suf \<le> length s \<and> drop (length s - length suf) s = suf)"

fun str_includes :: "string \<Rightarrow> string \<Rightarrow> bool" where
  "str_includes [] sub = (sub = [])"
| "str_includes (c # cs) sub = (startsWith (c # cs) sub \<or> str_includes cs sub)"

fun str_split :: "char \<Rightarrow> string \<Rightarrow> string list" where
  "str_split sep [] = [[]]"
| "str_split sep (c # cs) =
     (if c = sep then [] # str_split sep cs
      else (case str_split sep cs of [] \<Rightarrow> [[c]] | w # ws \<Rightarrow> (c # w) # ws))"

definition js_space :: "char \<Rightarrow> bool" where
  "js_space c = (c \<in> set [CHR 0x09, CHR 0x0A, CHR 0x0B, CHR 0x0C, CHR 0x0D, CHR 0x20])"

definition trim :: "string \<Rightarrow> string" where
  "trim s = rev (dropWhile js_space (rev (dropWhile js_space s)))"

definition is_digit :: "char \<Rightarrow> bool" where
  "is_digit c = (c \<in> set ''0123456789'')"

definition digit_val :: "char \<Rightarrow> nat" where
  "digit_val c = of_char c - 48"

definition digits_val :: "string \<Rightarrow> nat" where
  "digits_val ds = foldl (\<lambda>a c. 10 * a + digit_val c) 0 ds"

text \<open>
  \<open>parseInt(s, 10)\<close>: leading white space is skipped, one sign is read, then the longest
  run of decimal digits; what follows the digits is ignored. \<open>None\<close> is \<open>NaN\<close>.
\<close>

definition parseInt :: "string \<Rightarrow> int option" where
  "parseInt s =
     (let t = dropWhile js_space s;
          neg = (t \<noteq> [] \<and> hd t = CHR ''-'');
          u = (if t \<noteq> [] \<and> (hd t = CHR ''-'' \<or> hd t = CHR ''+'') then tl t else t);
          ds = takeWhile is_digit u
      in if ds = [] then None
         else Some (if neg then - int (digits_val ds) else int (digits_val ds)))"

definition digit_char :: "nat \<Rightarrow> char" where
  "digit_char n = ''0123456789'' ! (n mod 10)"

fun show_nat :: "nat \<Rightarrow> string" where
  "show_nat n = (if n < 10 then [digit_char n] else show_nat (n div 10) @ [digit_char n])"

declare show_nat.simps [simp del]

definition show_int :: "int \<Rightarrow> string" where
  "show_int i = (if i < 0 then CHR ''-'' # show_nat (nat (- i)) else show_nat (nat i))"

definition pad2 :: "nat \<Rightarrow> string" where
  "pad2 n = [digit_char (n div 10), digit_char n]"

definition pad3 :: "nat \<Rightarrow> string" where
  "pad3 n = [digit_char (n div 100), digit_char (n div 10), digit_char n]"

definition pad4 :: "nat \<Rightarrow> string" where
  "pad4 n = digit_char (n div 1000) # pad3 n"

definition pad6 :: "nat \<Rightarrow> string" where
  "pad6 n = digit_char (n div 100000) # digit_char (n div 10000) # pad4 n"

section \<open>Dates of the JavaScript runtime\<close>

text \<open>
  A time value is a number of milliseconds since 1970-01-01T00:00:00Z. The day number of
  a civil date and its inverse follow the proleptic Gregorian calendar, as the
  runtime's \<open>MakeDay\<close> does.
\<close>

definition days_from_civil :: "int \<Rightarrow> int \<Rightarrow> int \<Rightarrow> int" where
  "days_from_civil y m d =
     (let y' = (if m \<le> 2 then y - 1 else y);
          era = y' div 400;
          yoe = y' - era * 400;
          doy = (153 * (if 2 < m then m - 3 else m + 9) + 2) div 5 + d - 1;
          doe = yoe * 365 + yoe div 4 - yoe div 100 + doy
      in era * 146097 + doe - 719468)"

definition civil_from_days :: "int \<Rightarrow> int \<times> int \<times> int" where
  "civil_from_days z0 =
     (let z = z0 + 719468;
          era = z div 146097;
          doe = z - era * 146097;
          yoe = (doe - doe div 1460 + doe div 36524 - doe div 146096) div 365;
          doy = doe - (365 * yoe + yoe div 4 - yoe div 100);
          mp = (5 * doy + 2) div 153;
          d = doy - (153 * mp + 2) div 5 + 1;
          m = (if mp < 10 then mp + 3 else mp - 9);
          y = yoe + era * 400
      in (if m \<le> 2 then y + 1 else y, m, d))"

definition is_leap :: "int \<Rightarrow> bool" where
  "is_leap y = (y mod 4 = 0 \<and> (y mod 400 = 0 \<or> y mod 100 \<noteq> 0))"

definition days_in_month :: "int \<Rightarrow> int \<Rightarrow> int" where
  "days_in_month y m =
     (if m = 2 then (if is_leap y then 29 else 28)
      else if m = 4 \<or> m = 6 \<or> m = 9 \<or> m = 11 then 30 else 31)"

definition num_at :: "string \<Rightarrow> nat \<Rightarrow> nat \<Rightarrow> int option" where
  "num_at s i n =
     (let ds = take n (drop i s)
      in if length ds = n \<and> list_all is_digit ds then Some (int (digits_val ds)) else None)"

text \<open>
  The date-time form \<open>YYYY-MM-DDTHH:mm:ss\<close> with no offset. The result is the time
  value of the civil time read as UTC; \<open>None\<close> when the string has another shape or a
  field is out of range.
\<close>

definition parse_iso_local :: "string \<Rightarrow> int option" where
  "parse_iso_local s =
     (if length s = 19 \<and> s ! 4 = CHR ''-'' \<and> s ! 7 = CHR ''-'' \<and> s ! 10 = CHR ''T''
         \<and> s ! 13 = CHR '':'' \<and> s ! 16 = CHR '':''
      then (case (num_at s 0 4, num_at s 5 2, num_at s 8 2, num_at s 11 2, num_at s 14 2,
                  num_at s 17 2) of
              (Some y, Some mo, Some d, Some h, Some mi, Some sec) \<Rightarrow>
                if 1 \<le> mo \<and> mo \<le> 12 \<and> 1 \<le> d \<and> d \<le> days_in_month y mo
                   \<and> h \<le> 23 \<and> mi \<le> 59 \<and> sec \<le> 59
                then Some (days_from_civil y mo d * 86400000 + h * 3600000 + mi * 60000
                           + sec * 1000)
                else None
            | _ \<Rightarrow> None)
      else None)"

text \<open>
  \<open>Date.prototype.toISOString\<close>: the UTC fields of the time value, \<open>None\<close> where the
  runtime throws a RangeError (a time value outside \<open>\<plusminus>8.64e15\<close>).
\<close>

definition toISOString :: "int \<Rightarrow> string option" where
  "toISOString t =
     (if t < - 8640000000000000 \<or> 8640000000000000 < t then None
      else
        (let day = t div 86400000;
             ms = t mod 86400000;
             (y, m, d) = civil_from_days day;
             ys = (if 0 \<le> y \<and> y \<le> 9999 then pad4 (nat y)
                   else if y < 0 then CHR ''-'' # pad6 (nat (- y))
                   else CHR ''+'' # pad6 (nat y))
         in Some (ys @ ''-'' @ pad2 (nat m) @ ''-'' @ pad2 (nat d) @ ''T''
                  @ pad2 (nat (ms div 3600000)) @ '':''
                  @ pad2 (nat (ms div 60000 mod 60)) @ '':''
                  @ pad2 (nat (ms div 1000 mod 60)) @ ''.''
                  @ pad3 (nat (ms mod 1000)) @ ''Z'')))"

section \<open>Paths of Node's path module (POSIX)\<close>

text \<open>
  A path is the list of the components of an absolute, normalised path string.
  \<open>path.join\<close> appends the components of its argument and resolves \<open>.\<close> and \<open>..\<close>,
  as \<open>path.normalize\<close> does on the joined string.
\<close>

type_synonym path = "string list"

definition path_step :: "path \<Rightarrow> string \<Rightarrow> path" where
  "path_step p c =
     (if c = [] \<or> c = ''.'' then p else if c = ''..'' then butlast p else p @ [c])"

definition path_join :: "path \<Rightarrow> string \<Rightarrow> path" where
  "path_join p s = foldl path_step p (str_split CHR ''/'' s)"

text \<open>
  \<open>path.basename\<close>: trailing slashes are dropped, then the part after the last slash
  is returned.
\<close>

definition basename :: "string \<Rightarrow> string" where
  "basename s =
     rev (takeWhile (\<lambda>c. c \<noteq> CHR ''/'') (dropWhile (\<lambda>c. c = CHR ''/'') (rev s)))"

section \<open>Data model\<close>

text \<open>
  A registered group, with the fields that \<open>processTaskIpc\<close> writes for
  \<open>register_group\<close>. \<open>containerConfig\<close> is opaque.
\<close>

record RegisteredGroup =
  name :: string
  folder :: string
  trigger :: string
  added_at :: string
  containerConfig :: "string option"
  requiresTrigger :: "bool option"

text \<open>An element of the \<open>files\<close> array of a message request: a string or anything else.\<close>

datatype jval = JStr string | JNonStr

text \<open>
  The object of a request file. Field \<open>d_x\<close> is \<open>data.x\<close> of the source. Besides the
  fields the host reads, the record holds the identity fields the agent-side tools write
  into the payload (\<open>groupFolder\<close>, \<open>isMain\<close>, \<open>createdBy\<close>, \<open>sender\<close>) and
  \<open>timestamp\<close>.
\<close>

record ipc_data =
  d_type :: "string option"
  d_taskId :: "string option"
  d_prompt :: "string option"
  d_schedule_type :: "string option"
  d_schedule_value :: "string option"
  d_context_mode :: "string option"
  d_groupFolder :: "string option"
  d_chatJid :: "string option"
  d_targetJid :: "string option"
  d_branch :: "string option"
  d_jid :: "string option"
  d_name :: "string option"
  d_folder :: "string option"
  d_trigger :: "string option"
  d_requiresTrigger :: "bool option"
  d_containerConfig :: "string option"
  d_text :: "string option"
  d_files :: "jval list option"
  d_isMain :: "bool option"
  d_createdBy :: "string option"
  d_sender :: "string option"
  d_timestamp :: "string option"

text \<open>
  What a file holds, as \<open>JSON.parse\<close> sees it: text that does not parse, \<open>null\<close>, a
  value that is not an object (reading a property of it gives \<open>undefined\<close>), a request
  object, or the result object that \<open>test_container_build\<close> writes.
\<close>

datatype content =
    Unparsable
  | JNull
  | JOther
  | JObj ipc_data
  | JBuildResult bool

datatype node = Dir | File content

text \<open>The file system: the existing paths with their nodes.\<close>

type_synonym filesystem = "(path \<times> node) list"

definition existsSync :: "filesystem \<Rightarrow> path \<Rightarrow> bool" where
  "existsSync fs p = (map_of fs p \<noteq> None)"

definition isDirectory :: "filesystem \<Rightarrow> path \<Rightarrow> bool" where
  "isDirectory fs p = (map_of fs p = Some Dir)"

definition children :: "filesystem \<Rightarrow> path \<Rightarrow> string list" where
  "children fs d = map (\<lambda>(q, n). last q) (filter (\<lambda>(q, n). q \<noteq> [] \<and> butlast q = d) fs)"

text \<open>
  In the fs operations \<open>None\<close> is a thrown error. Node on POSIX reads a directory
  through libuv's \<open>scandir\<close>, which returns the names, each once, sorted as \<open>strcmp\<close>
  orders them: byte by byte, a proper prefix first. That is the lexicographic order of
  the strings.
\<close>

definition readdirSync :: "filesystem \<Rightarrow> path \<Rightarrow> string list option" where
  "readdirSync fs d =
     (if isDirectory fs d then Some (sort (remdups (children fs d))) else None)"

definition readFileSync :: "filesystem \<Rightarrow> path \<Rightarrow> content option" where
  "readFileSync fs p = (case map_of fs p of Some (File c) \<Rightarrow> Some c | _ \<Rightarrow> None)"

definition unlinkSync :: "filesystem \<Rightarrow> path \<Rightarrow> filesystem option" where
  "unlinkSync fs p =
     (case map_of fs p of
        Some (File c) \<Rightarrow> Some (filter (\<lambda>(q, n). q \<noteq> p) fs)
      | _ \<Rightarrow> None)"

definition mkdirSync :: "filesystem \<Rightarrow> path \<Rightarrow> filesystem" where
  "mkdirSync fs p = (if existsSync fs p then fs else fs @ [(p, Dir)])"

definition renameSync :: "filesystem \<Rightarrow> path \<Rightarrow> path \<Rightarrow> filesystem option" where
  "renameSync fs a b =
     (if existsSync fs a
      then Some (map (\<lambda>(q, n). if take (length a) q = a then (b @ drop (length a) q, n)
                                  else (q, n))
                     (filter (\<lambda>(q, n). q \<noteq> b) fs))
      else None)"

definition writeFileSync :: "filesystem \<Rightarrow> path \<Rightarrow> content \<Rightarrow> filesystem option" where
  "writeFileSync fs p c =
     (if isDirectory fs (butlast p) \<and> \<not> isDirectory fs p
      then Some (filter (\<lambda>(q, n). q \<noteq> p) fs @ [(p, File c)])
      else None)"

text \<open>
  A persisted task, as \<open>createTask\<close> receives it. \<open>group_folder\<close> is \<open>None\<close> when
  the caller passes \<open>undefined\<close>.
\<close>

record ScheduledTask =
  task_id :: string
  group_folder :: "string option"
  chat_jid :: string
  prompt :: string
  schedule_type :: string
  schedule_value :: string
  context_mode :: string
  next_run :: "string option"
  status :: string
  created_at :: string

text \<open>What the host does to the world outside its own state, in the order it happens.\<close>

datatype event =
    SendMessage string string "path list"
  | ExecSync string "path option"
  | RegisterGroup string RegisteredGroup
  | SyncGroupMetadata bool
  | WriteGroupsSnapshot string bool "string list"
  | ReadFile path
  | ProcessExit nat

text \<open>
  The configuration (\<open>config.ts\<close> is not among the sources, so its constants are
  parameters), the dependencies handed to the watcher (\<open>IpcDeps\<close>) and the runtime:
  \<^item> \<open>projectRoot\<close>: \<open>path.resolve(import.meta.dirname, '..')\<close>;
  \<^item> \<open>isValidGroupFolder\<close>: the test of \<open>group-folder.ts\<close>, which is not among the
    sources;
  \<^item> \<open>registeredGroups\<close>: the record \<open>deps.registeredGroups()\<close> returns, by chat id;
  \<^item> \<open>now\<close>, \<open>random36\<close>: \<open>Date.now()\<close> and the random suffix of a task id;
  \<^item> \<open>cronNext v tz\<close>: \<open>CronExpressionParser.parse(v, {tz}).next().toISOString()\<close>,
    \<open>None\<close> when the library throws;
  \<^item> \<open>localTZA t\<close>: the offset in milliseconds of the host process's local time zone
    from UTC at local time \<open>t\<close>;
  \<^item> \<open>dateParseOther\<close>: what \<open>new Date(s).getTime()\<close> is for a string of another
    form than the one \<open>parse_iso_local\<close> reads, \<open>None\<close> for \<open>NaN\<close>;
  \<^item> \<open>shell h c cwd\<close>: the output of \<open>execSync(c, {cwd})\<close> after the events \<open>h\<close>,
    \<open>None\<close> when the command fails;
  \<^item> \<open>sendMessageThrows\<close>: whether the call of \<open>deps.sendMessage\<close> throws for a
    chat id.
\<close>

record env =
  DATA_DIR :: path
  MAIN_GROUP_FOLDER :: string
  TIMEZONE :: string
  projectRoot :: path
  registeredGroups :: "(string \<times> RegisteredGroup) list"
  now :: int
  random36 :: string
  cronNext :: "string \<Rightarrow> string \<Rightarrow> string option"
  localTZA :: "int \<Rightarrow> int"
  dateParseOther :: "string \<Rightarrow> int option"
  isValidGroupFolder :: "string \<Rightarrow> bool"
  shell :: "event list \<Rightarrow> string \<Rightarrow> path option \<Rightarrow> string option"
  sendMessageThrows :: "string \<Rightarrow> bool"

text \<open>The state of the host: the file system, the task table and the events so far.\<close>

record host =
  fs :: filesystem
  tasks :: "ScheduledTask list"
  trace :: "event list"

definition emit :: "event \<Rightarrow> host \<Rightarrow> host" where
  "emit ev st = st\<lparr>trace := trace st @ [ev]\<rparr>"

text \<open>
  Modelled from the spec: the task store of \<open>db.ts\<close> (\<open>createTask\<close>, \<open>getTaskById\<close>,
  \<open>updateTask\<close>, \<open>deleteTask\<close>), which is not among the sources: a table of task
  records keyed by id.
\<close>

definition createTask :: "ScheduledTask \<Rightarrow> host \<Rightarrow> host" where
  "createTask t st = st\<lparr>tasks := tasks st @ [t]\<rparr>"

definition getTaskById :: "host \<Rightarrow> string \<Rightarrow> ScheduledTask option" where
  "getTaskById st i = find (\<lambda>t. task_id t = i) (tasks st)"

definition updateTask :: "string \<Rightarrow> string \<Rightarrow> host \<Rightarrow> host" where
  "updateTask i s st =
     st\<lparr>tasks := map (\<lambda>t. if task_id t = i then t\<lparr>status := s\<rparr> else t) (tasks st)\<rparr>"

definition deleteTask :: "string \<Rightarrow> host \<Rightarrow> host" where
  "deleteTask i st = st\<lparr>tasks := filter (\<lambda>t. task_id t \<noteq> i) (tasks st)\<rparr>"

text \<open>
  \<open>obj[key]\<close> on a plain object: an own property, a property inherited from
  \<open>Object.prototype\<close> (a function or an object: truthy, and its \<open>folder\<close> is
  \<open>undefined\<close>), or \<open>undefined\<close>.
\<close>

datatype 'a js_prop = NoProp | OwnProp 'a | InheritedProp

definition object_prototype_keys :: "string list" where
  "object_prototype_keys =
     [''constructor'', ''__defineGetter__'', ''__defineSetter__'', ''hasOwnProperty'',
      ''__lookupGetter__'', ''__lookupSetter__'', ''isPrototypeOf'',
      ''propertyIsEnumerable'', ''toString'', ''valueOf'', ''__proto__'',
      ''toLocaleString'']"

definition js_get :: "(string \<times> 'a) list \<Rightarrow> string \<Rightarrow> 'a js_prop" where
  "js_get obj k =
     (case map_of obj k of
        Some v \<Rightarrow> OwnProp v
      | None \<Rightarrow> if k \<in> set object_prototype_keys then InheritedProp else NoProp)"

text \<open>\<open>entry.folder\<close> of what a lookup in the registered groups gave.\<close>

definition prop_folder :: "RegisteredGroup js_prop \<Rightarrow> string option" where
  "prop_folder p = (case p of OwnProp g \<Rightarrow> Some (folder g) | _ \<Rightarrow> None)"

text \<open>\<open>new Date(s).getTime()\<close>: a date-time with no offset is local time.\<close>

definition dateParse :: "env \<Rightarrow> string \<Rightarrow> int option" where
  "dateParse e s =
     (case parse_iso_local s of
        Some t \<Rightarrow> Some (t - localTZA e t)
      | None \<Rightarrow> dateParseOther e s)"

section \<open>The task requests: \<open>processTaskIpc\<close>\<close>

text \<open>
  How a call ends: it returns, it throws, or it ends the process (\<open>process.exit\<close>).
\<close>

datatype outcome = Returned | Thrown | Exited

text \<open>
  The block of \<open>schedule_task\<close> that computes \<open>nextRun\<close>: the value (\<open>null\<close> is
  \<open>None\<close>), the \<open>break\<close> on an invalid schedule value, or the RangeError of
  \<open>toISOString\<close>. The cast of \<open>data.schedule_type\<close> checks nothing at run time, so a
  type other than the three reaches the end of the chain with \<open>nextRun = null\<close>.
\<close>

datatype next_run_result = NextRun "string option" | InvalidSchedule | RangeError

definition computeNextRun :: "env \<Rightarrow> string \<Rightarrow> string \<Rightarrow> next_run_result" where
  "computeNextRun e scheduleType scheduleValue =
     (if scheduleType = ''cron'' then
        (case cronNext e scheduleValue (TIMEZONE e) of
           None \<Rightarrow> InvalidSchedule
         | Some r \<Rightarrow> NextRun (Some r))
      else if scheduleType = ''interval'' then
        (case parseInt scheduleValue of
           None \<Rightarrow> InvalidSchedule
         | Some ms \<Rightarrow>
             if ms \<le> 0 then InvalidSchedule
             else (case toISOString (now e + ms) of
                     None \<Rightarrow> RangeError
                   | Some r \<Rightarrow> NextRun (Some r)))
      else if scheduleType = ''once'' then
        (case dateParse e scheduleValue of
           None \<Rightarrow> InvalidSchedule
         | Some t \<Rightarrow>
             (case toISOString t of
                None \<Rightarrow> RangeError
              | Some r \<Rightarrow> NextRun (Some r)))
      else NextRun None)"

definition ipc_schedule_task :: "env \<Rightarrow> ipc_data \<Rightarrow> string \<Rightarrow> bool \<Rightarrow> host \<Rightarrow> outcome \<times> host" where
  "ipc_schedule_task e d sourceGroup isMain st =
     (if truthy (d_prompt d) \<and> truthy (d_schedule_type d) \<and> truthy (d_schedule_value d)
         \<and> truthy (d_targetJid d)
      then
        (let targetJid = str_of (d_targetJid d);
             targetGroupEntry = js_get (registeredGroups e) targetJid
         in if targetGroupEntry = NoProp then (Returned, st)
            else
             (let targetFolder = prop_folder targetGroupEntry in
              if \<not> isMain \<and> targetFolder \<noteq> Some sourceGroup then (Returned, st)
              else
                (let scheduleType = str_of (d_schedule_type d) in
                 case computeNextRun e scheduleType (str_of (d_schedule_value d)) of
                   InvalidSchedule \<Rightarrow> (Returned, st)
                 | RangeError \<Rightarrow> (Thrown, st)
                 | NextRun nextRun \<Rightarrow>
                     (let taskId = ''task-'' @ show_int (now e) @ ''-'' @ random36 e;
                          contextMode =
                            (if d_context_mode d = Some ''group''
                                \<or> d_context_mode d = Some ''isolated''
                             then str_of (d_context_mode d) else ''isolated'')
                      in case toISOString (now e) of
                           None \<Rightarrow> (Thrown, st)
                         | Some created \<Rightarrow>
                             (Returned,
                              createTask
                                \<lparr>task_id = taskId, group_folder = targetFolder,
                                 chat_jid = targetJid, prompt = str_of (d_prompt d),
                                 schedule_type = scheduleType,
                                 schedule_value = str_of (d_schedule_value d),
                                 context_mode = contextMode, next_run = nextRun,
                                 status = ''active'', created_at = created\<rparr> st)))))
      else (Returned, st))"

text \<open>\<open>pause_task\<close>, \<open>resume_task\<close> and \<open>cancel_task\<close>.\<close>

definition ipc_set_status :: "string \<Rightarrow> ipc_data \<Rightarrow> string \<Rightarrow> bool \<Rightarrow> host \<Rightarrow> outcome \<times> host" where
  "ipc_set_status s d sourceGroup isMain st =
     (if truthy (d_taskId d) then
        (case getTaskById st (str_of (d_taskId d)) of
           None \<Rightarrow> (Returned, st)
         | Some task \<Rightarrow>
             if isMain \<or> group_folder task = Some sourceGroup
             then (Returned, updateTask (str_of (d_taskId d)) s st)
             else (Returned, st))
      else (Returned, st))"

definition ipc_cancel_task :: "ipc_data \<Rightarrow> string \<Rightarrow> bool \<Rightarrow> host \<Rightarrow> outcome \<times> host" where
  "ipc_cancel_task d sourceGroup isMain st =
     (if truthy (d_taskId d) then
        (case getTaskById st (str_of (d_taskId d)) of
           None \<Rightarrow> (Returned, st)
         | Some task \<Rightarrow>
             if isMain \<or> group_folder task = Some sourceGroup
             then (Returned, deleteTask (str_of (d_taskId d)) st)
             else (Returned, st))
      else (Returned, st))"

definition ipc_refresh_groups :: "env \<Rightarrow> string \<Rightarrow> bool \<Rightarrow> host \<Rightarrow> outcome \<times> host" where
  "ipc_refresh_groups e sourceGroup isMain st =
     (if isMain
      then (Returned,
            emit (WriteGroupsSnapshot sourceGroup True (map fst (registeredGroups e)))
              (emit (SyncGroupMetadata True) st))
      else (Returned, st))"

definition ipc_register_group :: "env \<Rightarrow> ipc_data \<Rightarrow> string \<Rightarrow> bool \<Rightarrow> host \<Rightarrow> outcome \<times> host" where
  "ipc_register_group e d sourceGroup isMain st =
     (if \<not> isMain then (Returned, st)
      else if truthy (d_jid d) \<and> truthy (d_name d) \<and> truthy (d_folder d) \<and> truthy (d_trigger d)
      then
        (if \<not> isValidGroupFolder e (str_of (d_folder d)) then (Returned, st)
         else (case toISOString (now e) of
                 None \<Rightarrow> (Thrown, st)
               | Some added \<Rightarrow>
                   (Returned,
                    emit (RegisterGroup (str_of (d_jid d))
                            \<lparr>name = str_of (d_name d), folder = str_of (d_folder d),
                             trigger = str_of (d_trigger d), added_at = added,
                             containerConfig = d_containerConfig d,
                             requiresTrigger = d_requiresTrigger d\<rparr>) st)))
      else (Returned, st))"

text \<open>\<open>execSync\<close>: the command is recorded; \<open>None\<close> is a thrown error.\<close>

definition execSync :: "env \<Rightarrow> string \<Rightarrow> path option \<Rightarrow> host \<Rightarrow> string option \<times> host" where
  "execSync e c cwd st = (shell e (trace st) c cwd, emit (ExecSync c cwd) st)"

definition ipc_restart :: "env \<Rightarrow> host \<Rightarrow> outcome \<times> host" where
  "ipc_restart e st =
     (let (r, st1) = execSync e ''npm run build'' (Some (projectRoot e)) st
      in (Exited, emit (ProcessExit 0) st1))"

definition ipc_rebuild :: "env \<Rightarrow> host \<Rightarrow> outcome \<times> host" where
  "ipc_rebuild e st =
     (let containerDir = path_join (projectRoot e) ''container'';
          (r1, st1) = execSync e ''docker build -t nanoclawbster-agent:latest .''
                        (Some containerDir) st;
          st2 = (case r1 of
                   None \<Rightarrow> st1
                 | Some out \<Rightarrow> snd (execSync e ''docker image prune -f'' None st1));
          (r3, st3) = execSync e ''npm run build'' (Some (projectRoot e)) st2
      in (Exited, emit (ProcessExit 0) st3))"

definition write_build_failure :: "path \<Rightarrow> host \<Rightarrow> outcome \<times> host" where
  "write_build_failure resultPath st =
     (case writeFileSync (fs st) resultPath (JBuildResult False) of
        None \<Rightarrow> (Thrown, st)
      | Some f \<Rightarrow> (Returned, st\<lparr>fs := f\<rparr>))"

definition ipc_test_container_build :: "env \<Rightarrow> string \<Rightarrow> bool \<Rightarrow> host \<Rightarrow> outcome \<times> host" where
  "ipc_test_container_build e sourceGroup isMain st =
     (if \<not> isMain then (Returned, st)
      else
        (let devContainerDir = path_join (path_join (DATA_DIR e) ''dev-workspace'') ''container'';
             resultPath = path_join (path_join (DATA_DIR e) ''dev-workspace'') ''.build-result.json'';
             (r1, st1) = execSync e ''docker build -t nanoclawbster-agent:test .''
                           (Some devContainerDir) st
         in case r1 of
              None \<Rightarrow> write_build_failure resultPath st1
            | Some out \<Rightarrow>
                (let st2 = snd (execSync e ''docker rmi nanoclawbster-agent:test'' None st1)
                 in case writeFileSync (fs st2) resultPath (JBuildResult True) of
                      None \<Rightarrow> write_build_failure resultPath st2
                    | Some f \<Rightarrow> (Returned, st2\<lparr>fs := f\<rparr>))))"

text \<open>The steps of \<open>pull_and_deploy\<close>, numbered as in the source.\<close>

definition safe_ref_char :: "char \<Rightarrow> bool" where
  "safe_ref_char c =
     (c \<in> set ''abcdefghijklmnopqrstuvwxyzABCDEFGHIJKLMNOPQRSTUVWXYZ0123456789._-/'')"

definition is_sha40 :: "string \<Rightarrow> bool" where
  "is_sha40 s = (length s = 40 \<and> list_all (\<lambda>c. c \<in> set ''0123456789abcdef'') s)"

definition git_diff_names :: "string \<Rightarrow> string" where
  "git_diff_names previousHead = ''git diff '' @ previousHead @ '' HEAD --name-only''"

definition deploy_install :: "env \<Rightarrow> string \<Rightarrow> host \<Rightarrow> host" where
  "deploy_install e previousHead st =
     (let (r, st1) = execSync e (git_diff_names previousHead) (Some (projectRoot e)) st
      in case r of
           None \<Rightarrow> st1
         | Some diff \<Rightarrow>
             if str_includes diff ''package.json'' \<or> str_includes diff ''package-lock.json''
             then snd (execSync e ''npm install'' (Some (projectRoot e)) st1)
             else st1)"

definition deploy_rollback :: "env \<Rightarrow> string \<Rightarrow> host \<Rightarrow> host" where
  "deploy_rollback e previousHead st =
     (let (r1, st1) = execSync e (''git reset --hard '' @ previousHead) (Some (projectRoot e)) st
      in case r1 of
           None \<Rightarrow> st1
         | Some out \<Rightarrow>
             (let st2 = snd (execSync e ''npm install'' (Some (projectRoot e)) st1)
              in snd (execSync e ''npm run build'' (Some (projectRoot e)) st2)))"

definition deploy_build :: "env \<Rightarrow> string \<Rightarrow> host \<Rightarrow> bool \<times> host" where
  "deploy_build e previousHead st =
     (let (r, st1) = execSync e ''npm run build'' (Some (projectRoot e)) st
      in case r of
           Some out \<Rightarrow> (False, st1)
         | None \<Rightarrow> (True, deploy_rollback e previousHead st1))"

definition deploy_docker :: "env \<Rightarrow> string \<Rightarrow> host \<Rightarrow> host" where
  "deploy_docker e previousHead st =
     (let (r, st1) = execSync e (git_diff_names previousHead) (Some (projectRoot e)) st
      in case r of
           None \<Rightarrow> st1
         | Some diff \<Rightarrow>
             if list_ex (\<lambda>f. startsWith f ''container/'') (str_split CHR 0x0A diff)
             then
               (let (r2, st2) = execSync e ''docker build -t nanoclawbster-agent:latest .''
                                  (Some (path_join (projectRoot e) ''container'')) st1
                in case r2 of
                     None \<Rightarrow> st2
                   | Some out \<Rightarrow> snd (execSync e ''docker image prune -f'' None st2))
             else st1)"

definition deploy_sync_dev :: "env \<Rightarrow> string \<Rightarrow> host \<Rightarrow> host" where
  "deploy_sync_dev e branch st =
     (let devWorkspaceDir = path_join (DATA_DIR e) ''dev-workspace''
      in if existsSync (fs st) devWorkspaceDir
         then
           (let (r1, st1) = execSync e (''git fetch origin '' @ branch) (Some devWorkspaceDir) st
            in case r1 of
                 None \<Rightarrow> st1
               | Some out \<Rightarrow>
                   snd (execSync e (''git reset --hard origin/'' @ branch)
                          (Some devWorkspaceDir) st1))
         else st)"

text \<open>Step 1: the current HEAD, \<open>None\<close> when the deploy is aborted.\<close>

definition deploy_head :: "env \<Rightarrow> host \<Rightarrow> string option \<times> host" where
  "deploy_head e st =
     (let (r1, st1) = execSync e ''git rev-parse HEAD'' (Some (projectRoot e)) st
      in case r1 of
           None \<Rightarrow> (None, st1)
         | Some out \<Rightarrow>
             if is_sha40 (trim out) then (Some (trim out), st1) else (None, st1))"

text \<open>Step 2: fetch and reset; \<open>False\<close> when the deploy is aborted.\<close>

definition deploy_fetch :: "env \<Rightarrow> string \<Rightarrow> host \<Rightarrow> bool \<times> host" where
  "deploy_fetch e branch st =
     (let (r2, st2) = execSync e (''git fetch origin '' @ branch) (Some (projectRoot e)) st
      in case r2 of
           None \<Rightarrow> (False, st2)
         | Some out2 \<Rightarrow>
             (let (r3, st3) = execSync e (''git reset --hard origin/'' @ branch)
                                (Some (projectRoot e)) st2
              in case r3 of
                   None \<Rightarrow> (False, st3)
                 | Some out3 \<Rightarrow> (True, st3)))"

text \<open>Steps 3 to 7.\<close>

definition deploy_finish :: "env \<Rightarrow> string \<Rightarrow> string \<Rightarrow> host \<Rightarrow> outcome \<times> host" where
  "deploy_finish e branch previousHead st3 =
     (let st4 = deploy_install e previousHead st3;
          (buildFailed, st5) = deploy_build e previousHead st4;
          st6 = (if \<not> buildFailed then deploy_docker e previousHead st5 else st5);
          st7 = deploy_sync_dev e branch st6
      in (Exited, emit (ProcessExit 0) st7))"

definition ipc_pull_and_deploy :: "env \<Rightarrow> ipc_data \<Rightarrow> string \<Rightarrow> bool \<Rightarrow> host \<Rightarrow> outcome \<times> host" where
  "ipc_pull_and_deploy e d sourceGroup isMain st =
     (if \<not> isMain then (Returned, st)
      else
        (let rawBranch = (if truthy (d_branch d) then str_of (d_branch d) else ''main'');
             branch = filter safe_ref_char rawBranch
         in if branch = [] then (Returned, st)
            else
              (case deploy_head e st of
                 (None, st1) \<Rightarrow> (Returned, st1)
               | (Some previousHead, st1) \<Rightarrow>
                   (case deploy_fetch e branch st1 of
                      (False, st2) \<Rightarrow> (Returned, st2)
                    | (True, st3) \<Rightarrow> deploy_finish e branch previousHead st3))))"

text \<open>
  The \<open>switch\<close> on \<open>data.type\<close>. Reading \<open>data.type\<close> of \<open>null\<close> throws a TypeError;
  a value that is not an object has no \<open>type\<close> and reaches the default case.
\<close>

definition processTaskIpc :: "env \<Rightarrow> content \<Rightarrow> string \<Rightarrow> bool \<Rightarrow> host \<Rightarrow> outcome \<times> host" where
  "processTaskIpc e data sourceGroup isMain st =
     (case data of
        JNull \<Rightarrow> (Thrown, st)
      | JObj d \<Rightarrow>
          (if d_type d = Some ''schedule_task'' then ipc_schedule_task e d sourceGroup isMain st
           else if d_type d = Some ''pause_task'' then ipc_set_status ''paused'' d sourceGroup isMain st
           else if d_type d = Some ''resume_task'' then ipc_set_status ''active'' d sourceGroup isMain st
           else if d_type d = Some ''cancel_task'' then ipc_cancel_task d sourceGroup isMain st
           else if d_type d = Some ''refresh_groups'' then ipc_refresh_groups e sourceGroup isMain st
           else if d_type d = Some ''register_group'' then ipc_register_group e d sourceGroup isMain st
           else if d_type d = Some ''restart'' then ipc_restart e st
           else if d_type d = Some ''rebuild'' then ipc_rebuild e st
           else if d_type d = Some ''test_container_build''
             then ipc_test_container_build e sourceGroup isMain st
           else if d_type d = Some ''pull_and_deploy''
             then ipc_pull_and_deploy e d sourceGroup isMain st
           else (Returned, st))
      | _ \<Rightarrow> (Returned, st))"

section \<open>The watcher: \<open>processIpcFiles\<close>\<close>

definition is_bare :: "jval \<Rightarrow> bool" where
  "is_bare v = (case v of JStr s \<Rightarrow> basename s = s | JNonStr \<Rightarrow> False)"

definition jstr :: "jval \<Rightarrow> string" where
  "jstr v = (case v of JStr s \<Rightarrow> s | JNonStr \<Rightarrow> [])"

text \<open>
  \<open>resolvedFiles\<close>: the entries of \<open>data.files\<close> that are strings equal to their own
  basename, joined to the attachments directory, of which those that exist are kept.
\<close>

definition resolvedFiles :: "filesystem \<Rightarrow> path \<Rightarrow> jval list option \<Rightarrow> path list" where
  "resolvedFiles f attachmentsDir files =
     filter (existsSync f)
       (map (\<lambda>v. path_join attachmentsDir (jstr v))
          (filter is_bare (case files of None \<Rightarrow> [] | Some vs \<Rightarrow> vs)))"

definition unlink_each :: "filesystem \<Rightarrow> path list \<Rightarrow> filesystem" where
  "unlink_each f ps = foldl (\<lambda>g p. case unlinkSync g p of None \<Rightarrow> g | Some g' \<Rightarrow> g') f ps"

definition unlink_request :: "path \<Rightarrow> host \<Rightarrow> bool \<times> host" where
  "unlink_request filePath st =
     (case unlinkSync (fs st) filePath of
        None \<Rightarrow> (False, st)
      | Some f \<Rightarrow> (True, st\<lparr>fs := f\<rparr>))"

text \<open>
  The \<open>try\<close> block for one message file, after the file has been read: \<open>False\<close>
  when it throws (\<open>JSON.parse\<close> of text that does not parse, \<open>data.type\<close> of
  \<open>null\<close>, a send that throws, an unlink that fails).
\<close>

definition handle_message :: "env \<Rightarrow> path \<Rightarrow> string \<Rightarrow> bool \<Rightarrow> path \<Rightarrow> content \<Rightarrow> host \<Rightarrow> bool \<times> host" where
  "handle_message e ipcBaseDir sourceGroup isMain filePath data st =
     (case data of
        Unparsable \<Rightarrow> (False, st)
      | JNull \<Rightarrow> (False, st)
      | JObj d \<Rightarrow>
          if d_type d = Some ''message'' \<and> truthy (d_chatJid d) \<and> truthy (d_text d)
          then
            (let targetGroup = js_get (registeredGroups e) (str_of (d_chatJid d))
             in if isMain \<or> prop_folder targetGroup = Some sourceGroup
                then
                  (let attachmentsDir =
                         path_join (path_join ipcBaseDir sourceGroup) ''attachments'';
                       files = resolvedFiles (fs st) attachmentsDir (d_files d);
                       st1 = emit (SendMessage (str_of (d_chatJid d)) (str_of (d_text d)) files) st
                   in if sendMessageThrows e (str_of (d_chatJid d)) then (False, st1)
                      else unlink_request filePath (st1\<lparr>fs := unlink_each (fs st1) files\<rparr>))
                else unlink_request filePath st)
          else unlink_request filePath st
      | other \<Rightarrow> unlink_request filePath st)"

definition message_try :: "env \<Rightarrow> path \<Rightarrow> string \<Rightarrow> bool \<Rightarrow> path \<Rightarrow> host \<Rightarrow> bool \<times> host" where
  "message_try e ipcBaseDir sourceGroup isMain filePath st =
     (let st0 = emit (ReadFile filePath) st
      in case readFileSync (fs st) filePath of
           None \<Rightarrow> (False, st0)
         | Some data \<Rightarrow> handle_message e ipcBaseDir sourceGroup isMain filePath data st0)"

text \<open>
  The \<open>catch\<close> block of a request file: the file is renamed into the errors directory.
  \<open>False\<close> when the rename throws, which ends the loop over the directory's files.
\<close>

definition move_to_errors :: "path \<Rightarrow> string \<Rightarrow> string \<Rightarrow> path \<Rightarrow> host \<Rightarrow> bool \<times> host" where
  "move_to_errors ipcBaseDir sourceGroup file filePath st =
     (let errorDir = path_join ipcBaseDir ''errors'';
          f1 = mkdirSync (fs st) errorDir
      in case renameSync f1 filePath (path_join errorDir (sourceGroup @ ''-'' @ file)) of
           None \<Rightarrow> (False, st\<lparr>fs := f1\<rparr>)
         | Some f2 \<Rightarrow> (True, st\<lparr>fs := f2\<rparr>))"

definition processMessageFile :: "env \<Rightarrow> path \<Rightarrow> string \<Rightarrow> bool \<Rightarrow> string \<Rightarrow> host \<Rightarrow> bool \<times> host" where
  "processMessageFile e ipcBaseDir sourceGroup isMain file st =
     (let filePath = path_join (path_join (path_join ipcBaseDir sourceGroup) ''messages'') file;
          (ok, st1) = message_try e ipcBaseDir sourceGroup isMain filePath st
      in if ok then (True, st1)
         else move_to_errors ipcBaseDir sourceGroup file filePath st1)"

fun processMessageFiles :: "env \<Rightarrow> path \<Rightarrow> string \<Rightarrow> bool \<Rightarrow> string list \<Rightarrow> host \<Rightarrow> host" where
  "processMessageFiles e ipcBaseDir sourceGroup isMain [] st = st"
| "processMessageFiles e ipcBaseDir sourceGroup isMain (file # files) st =
     (case processMessageFile e ipcBaseDir sourceGroup isMain file st of
        (True, st1) \<Rightarrow> processMessageFiles e ipcBaseDir sourceGroup isMain files st1
      | (False, st1) \<Rightarrow> st1)"

text \<open>
  The pending request files of a queue directory: the names of its listing that end in
  \<open>.json\<close>, in the order of the listing (none when the directory cannot be listed).
\<close>

definition json_files :: "filesystem \<Rightarrow> path \<Rightarrow> string list" where
  "json_files f dir =
     (case readdirSync f dir of
        None \<Rightarrow> []
      | Some names \<Rightarrow> filter (\<lambda>n. endsWith n ''.json'') names)"

text \<open>
  The messages of one namespace. An error of \<open>readdirSync\<close>, or one that leaves the loop
  over the files, is caught and logged.
\<close>

definition processMessages :: "env \<Rightarrow> path \<Rightarrow> string \<Rightarrow> bool \<Rightarrow> host \<Rightarrow> host" where
  "processMessages e ipcBaseDir sourceGroup isMain st =
     (let messagesDir = path_join (path_join ipcBaseDir sourceGroup) ''messages''
      in if existsSync (fs st) messagesDir
         then (case readdirSync (fs st) messagesDir of
                 None \<Rightarrow> st
               | Some names \<Rightarrow>
                   processMessageFiles e ipcBaseDir sourceGroup isMain
                     (filter (\<lambda>f. endsWith f ''.json'') names) st)
         else st)"

text \<open>
  One task file: it is read, parsed, deleted, and then handed to \<open>processTaskIpc\<close>; an
  error of any of these runs the \<open>catch\<close> block.
\<close>

definition processTaskFile :: "env \<Rightarrow> path \<Rightarrow> string \<Rightarrow> bool \<Rightarrow> string \<Rightarrow> host \<Rightarrow> outcome \<times> host" where
  "processTaskFile e ipcBaseDir sourceGroup isMain file st =
     (let filePath = path_join (path_join (path_join ipcBaseDir sourceGroup) ''tasks'') file;
          st0 = emit (ReadFile filePath) st;
          caught = (\<lambda>s. case move_to_errors ipcBaseDir sourceGroup file filePath s of
                           (True, s') \<Rightarrow> (Returned, s')
                         | (False, s') \<Rightarrow> (Thrown, s'))
      in case readFileSync (fs st) filePath of
           None \<Rightarrow> caught st0
         | Some Unparsable \<Rightarrow> caught st0
         | Some data \<Rightarrow>
             (case unlinkSync (fs st0) filePath of
                None \<Rightarrow> caught st0
              | Some f \<Rightarrow>
                  (case processTaskIpc e data sourceGroup isMain (st0\<lparr>fs := f\<rparr>) of
                     (Thrown, s) \<Rightarrow> caught s
                   | r \<Rightarrow> r)))"

fun processTaskFiles :: "env \<Rightarrow> path \<Rightarrow> string \<Rightarrow> bool \<Rightarrow> string list \<Rightarrow> host \<Rightarrow> outcome \<times> host" where
  "processTaskFiles e ipcBaseDir sourceGroup isMain [] st = (Returned, st)"
| "processTaskFiles e ipcBaseDir sourceGroup isMain (file # files) st =
     (case processTaskFile e ipcBaseDir sourceGroup isMain file st of
        (Returned, st1) \<Rightarrow> processTaskFiles e ipcBaseDir sourceGroup isMain files st1
      | r \<Rightarrow> r)"

text \<open>
  The tasks of one namespace. An error that leaves the loop is caught and logged, so
  the result is \<open>Returned\<close> unless the process has exited.
\<close>

definition processTasks :: "env \<Rightarrow> path \<Rightarrow> string \<Rightarrow> bool \<Rightarrow> host \<Rightarrow> outcome \<times> host" where
  "processTasks e ipcBaseDir sourceGroup isMain st =
     (let tasksDir = path_join (path_join ipcBaseDir sourceGroup) ''tasks''
      in if existsSync (fs st) tasksDir
         then (case readdirSync (fs st) tasksDir of
                 None \<Rightarrow> (Returned, st)
               | Some names \<Rightarrow>
                   (case processTaskFiles e ipcBaseDir sourceGroup isMain
                           (filter (\<lambda>f. endsWith f ''.json'') names) st of
                      (Exited, s) \<Rightarrow> (Exited, s)
                    | (r, s) \<Rightarrow> (Returned, s)))
         else (Returned, st))"

fun processGroups :: "env \<Rightarrow> path \<Rightarrow> string list \<Rightarrow> host \<Rightarrow> outcome \<times> host" where
  "processGroups e ipcBaseDir [] st = (Returned, st)"
| "processGroups e ipcBaseDir (sourceGroup # rest) st =
     (let isMain = (sourceGroup = MAIN_GROUP_FOLDER e);
          st1 = processMessages e ipcBaseDir sourceGroup isMain st
      in case processTasks e ipcBaseDir sourceGroup isMain st1 of
           (Exited, s) \<Rightarrow> (Exited, s)
         | (r, s) \<Rightarrow> processGroups e ipcBaseDir rest s)"

text \<open>One poll of the watcher.\<close>

definition processIpcFiles :: "env \<Rightarrow> host \<Rightarrow> outcome \<times> host" where
  "processIpcFiles e st =
     (let ipcBaseDir = path_join (DATA_DIR e) ''ipc''
      in case readdirSync (fs st) ipcBaseDir of
           None \<Rightarrow> (Returned, st)
         | Some entries \<Rightarrow>
             processGroups e ipcBaseDir
               (filter (\<lambda>f. isDirectory (fs st) (path_join ipcBaseDir f) \<and> f \<noteq> ''errors'')
                  entries) st)"

section \<open>The persisted group list: \<open>registerGroup\<close> of \<open>index.ts\<close>\<close>

text \<open>
  The file \<open>registered_groups.json\<close>: missing, text that does not parse, or a stored
  list of groups.
\<close>

datatype groups_file = Missing | Corrupt | Stored "RegisteredGroup list"

definition loadRegisteredGroups :: "groups_file \<Rightarrow> RegisteredGroup list" where
  "loadRegisteredGroups disk = (case disk of Stored gs \<Rightarrow> gs | _ \<Rightarrow> [])"

definition saveRegisteredGroups :: "RegisteredGroup list \<Rightarrow> groups_file" where
  "saveRegisteredGroups gs = Stored gs"

record register_result =
  success :: bool
  alreadyExisted :: bool

definition registerGroup :: "RegisteredGroup \<Rightarrow> groups_file \<Rightarrow> register_result \<times> groups_file" where
  "registerGroup grp disk =
     (let groups = loadRegisteredGroups disk
      in case find (\<lambda>g. folder g = folder grp) groups of
           Some existing \<Rightarrow> (\<lparr>success = True, alreadyExisted = True\<rparr>, disk)
         | None \<Rightarrow>
             (\<lparr>success = True, alreadyExisted = False\<rparr>,
              saveRegisteredGroups (groups @ [grp])))"

section \<open>Observations and example configurations\<close>

text \<open>
  The name \<open>writeIpcFile\<close> of the agent side gives a request file: \<open>Date.now()\<close>, a
  dash, six random characters and \<open>.json\<close>.
\<close>

definition ipc_filename :: "int \<Rightarrow> string \<Rightarrow> string" where
  "ipc_filename t r = show_int t @ ''-'' @ r @ ''.json''"

text \<open>
  Files handled one after another in the order of a list: \<open>in_order cont h files st st'\<close>
  holds when \<open>st'\<close> is reached from \<open>st\<close> by running the handler \<open>h\<close> on the first
  file, then on the second in the state the first left, and so on, up to the end of the
  list or to the first file whose result does not let the loop go on.
\<close>

inductive in_order ::
  "('r \<Rightarrow> bool) \<Rightarrow> (string \<Rightarrow> host \<Rightarrow> 'r \<times> host) \<Rightarrow> string list \<Rightarrow> host \<Rightarrow> host \<Rightarrow> bool"
  for cont :: "'r \<Rightarrow> bool" and h :: "string \<Rightarrow> host \<Rightarrow> 'r \<times> host" where
  finished: "in_order cont h [] st st"
| continued: "h f st = (r, st1) \<Longrightarrow> cont r \<Longrightarrow> in_order cont h files st1 st2 \<Longrightarrow>
     in_order cont h (f # files) st st2"
| stopped: "h f st = (r, st1) \<Longrightarrow> \<not> cont r \<Longrightarrow> in_order cont h (f # files) st st1"

text \<open>\<open>before a b xs\<close>: \<open>b\<close> stands in the list \<open>xs\<close> somewhere after the first \<open>a\<close>.\<close>

definition before :: "'a \<Rightarrow> 'a \<Rightarrow> 'a list \<Rightarrow> bool" where
  "before a b xs = (b \<in> set (tl (dropWhile (\<lambda>x. x \<noteq> a) xs)))"

text \<open>The messages handed to \<open>deps.sendMessage\<close>.\<close>

fun sent :: "event list \<Rightarrow> (string \<times> string \<times> path list) list" where
  "sent [] = []"
| "sent (SendMessage j t fl # es) = (j, t, fl) # sent es"
| "sent (ev # es) = sent es"

text \<open>
  A payload with its identity fields removed: what two requests that differ only in
  what they say about their sender have in common.
\<close>

definition erase_identity :: "ipc_data \<Rightarrow> ipc_data" where
  "erase_identity d =
     d\<lparr>d_groupFolder := None, d_isMain := None, d_createdBy := None, d_sender := None\<rparr>"

definition no_data :: ipc_data where
  "no_data =
     \<lparr>d_type = None, d_taskId = None, d_prompt = None, d_schedule_type = None,
      d_schedule_value = None, d_context_mode = None, d_groupFolder = None,
      d_chatJid = None, d_targetJid = None, d_branch = None, d_jid = None, d_name = None,
      d_folder = None, d_trigger = None, d_requiresTrigger = None,
      d_containerConfig = None, d_text = None, d_files = None, d_isMain = None,
      d_createdBy = None, d_sender = None, d_timestamp = None\<rparr>"

definition group_of :: "string \<Rightarrow> string \<Rightarrow> RegisteredGroup" where
  "group_of n f =
     \<lparr>name = n, folder = f, trigger = ''@Andy'', added_at = ''2026-01-01T00:00:00.000Z'',
      containerConfig = None, requiresTrigger = None\<rparr>"

text \<open>
  A host in Los Angeles (UTC-8 in winter) at 2026-01-01T00:00:00Z, with the privileged
  group \<open>main\<close> and the groups \<open>alice\<close> and \<open>bob\<close>; every shell command succeeds with
  empty output.
\<close>

definition env0 :: env where
  "env0 =
     \<lparr>DATA_DIR = [''data''], MAIN_GROUP_FOLDER = ''main'',
      TIMEZONE = ''America/Los_Angeles'', projectRoot = [''app''],
      registeredGroups =
        [(''dc:1'', group_of ''Main'' ''main''), (''dc:2'', group_of ''Alice'' ''alice''),
         (''dc:3'', group_of ''Bob'' ''bob'')],
      now = 1767225600000, random36 = ''k3x9ab'',
      cronNext = (\<lambda>v tz. if v = ''0 9 * * *'' then Some ''2026-01-01T17:00:00.000Z'' else None),
      localTZA = (\<lambda>t. - 28800000), dateParseOther = (\<lambda>s. None),
      isValidGroupFolder = (\<lambda>f. True), shell = (\<lambda>h c cwd. Some []),
      sendMessageThrows = (\<lambda>j. False)\<rparr>"

definition host0 :: host where
  "host0 = \<lparr>fs = [], tasks = [], trace = []\<rparr>"

text \<open>
  A mailbox under \<open>data/ipc\<close> with one namespace directory and one queue directory
  holding the given files, stored in the given order.
\<close>

definition mailbox :: "string \<Rightarrow> string \<Rightarrow> (string \<times> content) list \<Rightarrow> filesystem" where
  "mailbox ns queue files =
     [([''data''], Dir), ([''data'', ''ipc''], Dir), ([''data'', ''ipc'', ns], Dir),
      ([''data'', ''ipc'', ns, queue], Dir)]
     @ map (\<lambda>(n, c). ([''data'', ''ipc'', ns, queue, n], File c)) files"

definition request :: "string \<Rightarrow> ipc_data" where
  "request t = no_data\<lparr>d_type := Some t\<rparr>"

definition message_to :: "string \<Rightarrow> string \<Rightarrow> ipc_data" where
  "message_to j t = no_data\<lparr>d_type := Some ''message'', d_chatJid := Some j, d_text := Some t\<rparr>"

text \<open>
  The claim's reading of a \<open>once\<close> value: the timestamp taken as civil time in a zone
  that is \<open>off\<close> milliseconds ahead of UTC, in canonical form.
\<close>

definition once_in_zone :: "int \<Rightarrow> string \<Rightarrow> string option" where
  "once_in_zone off s =
     (case parse_iso_local s of None \<Rightarrow> None | Some t \<Rightarrow> toISOString (t - off))"

definition once_request :: "string \<Rightarrow> string \<Rightarrow> ipc_data" where
  "once_request j v =
     no_data\<lparr>d_type := Some ''schedule_task'', d_prompt := Some ''remind me'',
       d_schedule_type := Some ''once'', d_schedule_value := Some v,
       d_targetJid := Some j\<rparr>"


text \<open>
  Two \<open>register_group\<close> requests that differ only in what they say about their sender.
\<close>

definition forged_register :: ipc_data where
  "forged_register =
     no_data\<lparr>d_type := Some ''register_group'', d_jid := Some ''dc:9'',
       d_name := Some ''Eve'', d_folder := Some ''eve'', d_trigger := Some ''@Andy'',
       d_groupFolder := Some ''main'', d_isMain := Some True, d_createdBy := Some ''main''\<rparr>"

definition honest_register :: ipc_data where
  "honest_register =
     no_data\<lparr>d_type := Some ''register_group'', d_jid := Some ''dc:9'',
       d_name := Some ''Eve'', d_folder := Some ''eve'', d_trigger := Some ''@Andy'',
       d_groupFolder := Some ''alice'', d_isMain := Some False, d_createdBy := Some ''alice''\<rparr>"

section \<open>Evaluation lemmas\<close>

lemmas eval_defs = processIpcFiles_def processTasks_def processMessages_def processTaskFile_def
  processMessageFile_def message_try_def handle_message_def move_to_errors_def
  unlink_request_def json_files_def children_def readdirSync_def isDirectory_def
  existsSync_def readFileSync_def unlinkSync_def mkdirSync_def renameSync_def
  path_join_def path_step_def endsWith_def emit_def mailbox_def request_def no_data_def
  env0_def host0_def processTaskIpc_def ipc_restart_def execSync_def truthy_def str_of_def
  message_to_def resolvedFiles_def unlink_each_def group_of_def is_bare_def jstr_def
  basename_def js_get_def prop_folder_def object_prototype_keys_def Let_def

lemma iso_now: "toISOString 1767225600000 = Some ''2026-01-01T00:00:00.000Z''"
  by code_simp


lemma iso_2330: "toISOString 1769988600000 = Some ''2026-02-01T23:30:00.000Z''"
  by code_simp

lemma parse_1530: "parse_iso_local ''2026-02-01T15:30:00'' = Some 1769959800000"
  by code_simp

section \<open>Privileged actions\<close>

text \<open>
  C1. The claim: a privileged-only request (register_group, refresh_groups, restart,
  rebuild, pull_and_deploy, test_container_build) from a namespace other than the
  privileged one is rejected, with no state change, no build command and no exit.
  The cases \<open>restart\<close> and \<open>rebuild\<close> of \<open>processTaskIpc\<close> never look at \<open>isMain\<close>.
  Here a \<open>restart\<close> request lies in the tasks queue of the namespace \<open>alice\<close>, which
  is not the privileged namespace \<open>main\<close>: the poll runs \<open>npm run build\<close> and ends
  the process.
\<close>

theorem restart_from_unprivileged_namespace_exits:
  "processIpcFiles env0
     \<lparr>fs = mailbox ''alice'' ''tasks''
             [(''1767225600000-ab12cd.json'', JObj (request ''restart''))],
      tasks = [], trace = []\<rparr>
   = (Exited,
      \<lparr>fs = mailbox ''alice'' ''tasks'' [], tasks = [],
       trace = [ReadFile [''data'', ''ipc'', ''alice'', ''tasks'', ''1767225600000-ab12cd.json''],
                ExecSync ''npm run build'' (Some [''app'']), ProcessExit 0]\<rparr>)"
  by (simp add: eval_defs)

text \<open>
  The four cases that do test \<open>isMain\<close> leave the state as it is when the request
  does not come from the privileged namespace.
\<close>

lemma guarded_actions_rejected:
  assumes "\<not> isMain"
    and "t \<in> {''register_group'', ''refresh_groups'', ''pull_and_deploy'', ''test_container_build''}"
    and "d_type d = Some t"
  shows "processTaskIpc e (JObj d) sourceGroup isMain st = (Returned, st)"
  using assms
  by (auto simp: processTaskIpc_def ipc_register_group_def ipc_refresh_groups_def
        ipc_pull_and_deploy_def ipc_test_container_build_def)

section \<open>Scheduling\<close>

text \<open>
  C3. A \<open>schedule_task\<close> request from a namespace that is not the privileged one, whose
  target chat id resolves to a registered group with another folder than the source
  namespace, is rejected: \<open>processTaskIpc\<close> returns and the state, with its task table,
  is unchanged.
\<close>

theorem schedule_task_foreign_target_rejected:
  assumes "d_type d = Some ''schedule_task''"
    and "sourceGroup \<noteq> MAIN_GROUP_FOLDER e"
    and "map_of (registeredGroups e) (str_of (d_targetJid d)) = Some g"
    and "folder g \<noteq> sourceGroup"
  shows "processTaskIpc e (JObj d) sourceGroup (sourceGroup = MAIN_GROUP_FOLDER e) st
           = (Returned, st)"
  using assms by (simp add: processTaskIpc_def ipc_schedule_task_def js_get_def prop_folder_def)

theorem schedule_task_foreign_target_rejected_witness:
  "d_type (no_data\<lparr>d_type := Some ''schedule_task'', d_prompt := Some ''say hi'',
        d_schedule_type := Some ''interval'', d_schedule_value := Some ''300000'',
        d_targetJid := Some ''dc:3'', d_groupFolder := Some ''bob''\<rparr>) = Some ''schedule_task''
   \<and> ''alice'' \<noteq> MAIN_GROUP_FOLDER env0
   \<and> map_of (registeredGroups env0) ''dc:3'' = Some (group_of ''Bob'' ''bob'')
   \<and> folder (group_of ''Bob'' ''bob'') \<noteq> ''alice''
   \<and> tasks (snd (processTaskIpc env0
        (JObj (no_data\<lparr>d_type := Some ''schedule_task'', d_prompt := Some ''say hi'',
           d_schedule_type := Some ''interval'', d_schedule_value := Some ''300000'',
           d_targetJid := Some ''dc:3'', d_groupFolder := Some ''bob''\<rparr>))
        ''alice'' False host0)) = []"
  using schedule_task_foreign_target_rejected
    [of "no_data\<lparr>d_type := Some ''schedule_task'', d_prompt := Some ''say hi'',
           d_schedule_type := Some ''interval'', d_schedule_value := Some ''300000'',
           d_targetJid := Some ''dc:3'', d_groupFolder := Some ''bob''\<rparr>"
        "''alice''" env0 "group_of ''Bob'' ''bob''" host0]
  by (simp add: no_data_def env0_def group_of_def host0_def str_of_def)

text \<open>
  C4. The claim: \<open>schedule_task\<close> accepts a request only if the schedule value is valid
  for its type (a cron string that parses, a positive interval, a \<open>once\<close> value that is
  a valid instant). The chain of tests on \<open>scheduleType\<close> has no final \<open>else\<close>: a
  request whose \<open>schedule_type\<close> is none of the three passes with \<open>nextRun = null\<close>.
  Here \<open>alice\<close> asks for the type \<open>daily\<close> with the value \<open>whenever\<close> for her own
  chat, and the poll creates the task.
\<close>

theorem schedule_task_unknown_type_accepted:
  "map (\<lambda>t. (group_folder t, schedule_type t, schedule_value t, next_run t, status t))
     (tasks (snd (processIpcFiles env0
       \<lparr>fs = mailbox ''alice'' ''tasks''
          [(''1767225600000-ab12cd.json'',
            JObj (no_data\<lparr>d_type := Some ''schedule_task'', d_prompt := Some ''say hi'',
               d_schedule_type := Some ''daily'', d_schedule_value := Some ''whenever'',
               d_targetJid := Some ''dc:2''\<rparr>))],
        tasks = [], trace = []\<rparr>)))
   = [(Some ''alice'', ''daily'', ''whenever'', None, ''active'')]"
  by (simp add: eval_defs ipc_schedule_task_def computeNextRun_def createTask_def iso_now)

text \<open>
  For the three known types the request is accepted only with a valid schedule value:
  whenever a task is added, the value has passed the test of its type.
\<close>

lemma known_types_are_validated:
  assumes "processTaskIpc e (JObj d) sourceGroup isMain st = (r, st')"
    and "d_type d = Some ''schedule_task''"
    and "tasks st' \<noteq> tasks st"
  shows "(d_schedule_type d = Some ''cron'' \<longrightarrow>
            cronNext e (str_of (d_schedule_value d)) (TIMEZONE e) \<noteq> None)
       \<and> (d_schedule_type d = Some ''interval'' \<longrightarrow>
            (\<exists>ms. parseInt (str_of (d_schedule_value d)) = Some ms \<and> 0 < ms))
       \<and> (d_schedule_type d = Some ''once'' \<longrightarrow>
            dateParse e (str_of (d_schedule_value d)) \<noteq> None)"
  using assms
  by (auto simp: processTaskIpc_def ipc_schedule_task_def computeNextRun_def Let_def
        str_of_def createTask_def
      split: if_splits option.splits next_run_result.splits)

text \<open>
  A target chat id that names a property every object inherits, such as \<open>toString\<close>,
  passes the test \<open>!targetGroupEntry\<close>, and its \<open>folder\<close> is \<open>undefined\<close>: from a
  namespace that is not the privileged one the request is rejected, from the privileged
  one \<open>createTask\<close> is called with no folder.
\<close>

lemma schedule_task_inherited_target:
  "map group_folder (tasks (snd (processTaskIpc env0
      (JObj (once_request ''toString'' ''2026-02-01T15:30:00'')) ''main'' True host0)))
     = [None]
   \<and> tasks (snd (processTaskIpc env0
      (JObj (once_request ''toString'' ''2026-02-01T15:30:00'')) ''alice'' False host0))
     = []"
  by (simp add: eval_defs ipc_schedule_task_def computeNextRun_def createTask_def iso_now
        once_request_def dateParse_def parse_1530 iso_2330)

section \<open>Consumption of request files\<close>

text \<open>
  C5. The claim: every request file is consumed exactly once, and every malformed or
  throwing request is moved to the errors namespace. A task file is deleted before
  \<open>processTaskIpc\<close> runs, so when that call throws, the rename in the \<open>catch\<close> block
  finds no file and throws in turn, which ends the loop over the namespace's task
  files. Here the first task file of \<open>alice\<close> holds \<open>null\<close> (reading \<open>data.type\<close>
  throws): after the poll the file is gone, the errors directory is empty, and the second
  file has not been read.
\<close>

theorem throwing_task_request_not_moved_to_errors:
  "processIpcFiles env0
     \<lparr>fs = mailbox ''alice'' ''tasks''
        [(''1767225600001-aaaaaa.json'', JNull),
         (''1767225600002-bbbbbb.json'', JObj (request ''refresh_groups''))],
      tasks = [], trace = []\<rparr>
   = (Returned,
      \<lparr>fs = mailbox ''alice'' ''tasks''
          [(''1767225600002-bbbbbb.json'', JObj (request ''refresh_groups''))]
          @ [([''data'', ''ipc'', ''errors''], Dir)],
       tasks = [],
       trace = [ReadFile [''data'', ''ipc'', ''alice'', ''tasks'', ''1767225600001-aaaaaa.json'']]\<rparr>)"
  by (simp add: eval_defs)

section \<open>Attachments\<close>

text \<open>
  C9. The claim: an attachment entry is forwarded only if it is a bare file name of a
  file inside the namespace's attachments directory, and an entry with a traversal
  component is dropped. The entry \<open>..\<close> is equal to its own basename, and
  \<open>path.join\<close> resolves it to the parent of the attachments directory, which exists.
  Here \<open>alice\<close> sends a message to her own chat with \<open>files = [".."]\<close>: the path handed
  to \<open>deps.sendMessage\<close> is the namespace directory \<open>data/ipc/alice\<close>.
\<close>

theorem dotdot_attachment_forwarded:
  "sent (trace (snd (processIpcFiles env0
     \<lparr>fs = mailbox ''alice'' ''messages''
        [(''1767225600001-aaaaaa.json'',
          JObj ((message_to ''dc:2'' ''hi'')\<lparr>d_files := Some [JStr ''..'']\<rparr>))]
        @ [([''data'', ''ipc'', ''alice'', ''attachments''], Dir)],
      tasks = [], trace = []\<rparr>)))
   = [(''dc:2'', ''hi'', [[''data'', ''ipc'', ''alice'']])]"
  by (simp add: eval_defs)

text \<open>An entry with a path separator is never forwarded.\<close>

lemma basename_no_slash: "CHR ''/'' \<notin> set (basename s)"
proof -
  have "CHR ''/'' \<notin> set (takeWhile (\<lambda>c. c \<noteq> CHR ''/'') xs)" for xs
    by (induction xs) auto
  then show ?thesis by (simp add: basename_def)
qed

lemma separator_entry_dropped:
  assumes "CHR ''/'' \<in> set s"
  shows "\<not> is_bare (JStr s)"
  using assms basename_no_slash[of s] by (auto simp: is_bare_def)

section \<open>The persisted group list\<close>

lemma find_folder_None: "(find (\<lambda>g. folder g = f) gs = None) = (f \<notin> folder ` set gs)"
  by (auto simp: find_None_iff)

text \<open>
  C10. \<open>registerGroup\<close> is idempotent in the group's folder: when the folder is already
  in the persisted list, the file is left as it is and the result is
  \<open>{success: true, alreadyExisted: true}\<close>; otherwise the list read back is the old one
  with exactly the new group appended and the result is
  \<open>{success: true, alreadyExisted: false}\<close>. Registering twice stores what registering
  once stores.
\<close>

theorem registerGroup_idempotent_on_folder:
  "(folder g \<in> folder ` set (loadRegisteredGroups disk) \<longrightarrow>
      registerGroup g disk = (\<lparr>success = True, alreadyExisted = True\<rparr>, disk))
   \<and> (folder g \<notin> folder ` set (loadRegisteredGroups disk) \<longrightarrow>
      fst (registerGroup g disk) = \<lparr>success = True, alreadyExisted = False\<rparr>
      \<and> loadRegisteredGroups (snd (registerGroup g disk)) = loadRegisteredGroups disk @ [g])
   \<and> snd (registerGroup g (snd (registerGroup g disk))) = snd (registerGroup g disk)"
proof -
  have a: "folder g \<in> folder ` set (loadRegisteredGroups disk) \<Longrightarrow>
      registerGroup g disk = (\<lparr>success = True, alreadyExisted = True\<rparr>, disk)"
    using find_folder_None[of "folder g" "loadRegisteredGroups disk"]
    by (auto simp: registerGroup_def Let_def split: option.splits)
  have b: "folder g \<notin> folder ` set (loadRegisteredGroups disk) \<Longrightarrow>
      registerGroup g disk = (\<lparr>success = True, alreadyExisted = False\<rparr>,
         Stored (loadRegisteredGroups disk @ [g]))"
    using find_folder_None[of "folder g" "loadRegisteredGroups disk"]
    by (auto simp: registerGroup_def Let_def saveRegisteredGroups_def split: option.splits)
  have c: "snd (registerGroup g (snd (registerGroup g disk))) = snd (registerGroup g disk)"
  proof (cases "folder g \<in> folder ` set (loadRegisteredGroups disk)")
    case True
    then show ?thesis using a by simp
  next
    case False
    have "folder g
        \<in> folder ` set (loadRegisteredGroups (Stored (loadRegisteredGroups disk @ [g])))"
      by (simp add: loadRegisteredGroups_def)
    then have "registerGroup g (Stored (loadRegisteredGroups disk @ [g]))
        = (\<lparr>success = True, alreadyExisted = True\<rparr>, Stored (loadRegisteredGroups disk @ [g]))"
      using find_folder_None
        [of "folder g" "loadRegisteredGroups (Stored (loadRegisteredGroups disk @ [g]))"]
      by (auto simp: registerGroup_def Let_def split: option.splits)
    then show ?thesis using b[OF False] by simp
  qed
  show ?thesis using a b c by (simp add: loadRegisteredGroups_def)
qed

theorem registerGroup_idempotent_on_folder_witness:
  "registerGroup (group_of ''Alice'' ''alice'') (Stored [group_of ''A'' ''alice''])
     = (\<lparr>success = True, alreadyExisted = True\<rparr>, Stored [group_of ''A'' ''alice''])
   \<and> registerGroup (group_of ''Bob'' ''bob'') (Stored [group_of ''A'' ''alice''])
     = (\<lparr>success = True, alreadyExisted = False\<rparr>,
        Stored [group_of ''A'' ''alice'', group_of ''Bob'' ''bob''])
   \<and> registerGroup (group_of ''Bob'' ''bob'') Missing
     = (\<lparr>success = True, alreadyExisted = False\<rparr>, Stored [group_of ''Bob'' ''bob''])"
  using registerGroup_idempotent_on_folder
          [of "group_of ''Alice'' ''alice''" "Stored [group_of ''A'' ''alice'']"]
        registerGroup_idempotent_on_folder
          [of "group_of ''Bob'' ''bob''" "Stored [group_of ''A'' ''alice'']"]
        registerGroup_idempotent_on_folder [of "group_of ''Bob'' ''bob''" Missing]
  by (simp add: registerGroup_def loadRegisteredGroups_def saveRegisteredGroups_def
        group_of_def)

section \<open>Authorization ignores the payload's identity fields\<close>

lemma erase_schedule:
  "ipc_schedule_task e (erase_identity d) s m st = ipc_schedule_task e d s m st"
  by (simp add: ipc_schedule_task_def erase_identity_def Let_def
      split: option.splits next_run_result.splits)

lemma erase_set_status:
  "ipc_set_status x (erase_identity d) s m st = ipc_set_status x d s m st"
  by (simp add: ipc_set_status_def erase_identity_def split: option.splits)

lemma erase_cancel:
  "ipc_cancel_task (erase_identity d) s m st = ipc_cancel_task d s m st"
  by (simp add: ipc_cancel_task_def erase_identity_def split: option.splits)

lemma erase_register:
  "ipc_register_group e (erase_identity d) s m st = ipc_register_group e d s m st"
  by (simp add: ipc_register_group_def erase_identity_def split: option.splits)

lemma erase_deploy:
  "ipc_pull_and_deploy e (erase_identity d) s m st = ipc_pull_and_deploy e d s m st"
  by (simp add: ipc_pull_and_deploy_def erase_identity_def)

lemma erase_type: "d_type (erase_identity d) = d_type d"
  by (simp add: erase_identity_def)

lemma erase_task:
  "processTaskIpc e (JObj (erase_identity d)) s m st = processTaskIpc e (JObj d) s m st"
  by (simp add: processTaskIpc_def erase_type erase_schedule erase_set_status erase_cancel
      erase_register erase_deploy)

lemma erase_message:
  "handle_message e b s m p (JObj (erase_identity d)) st = handle_message e b s m p (JObj d) st"
  by (simp add: handle_message_def erase_identity_def Let_def)

text \<open>
  C2. Two requests of the same namespace that differ only in the identity fields of
  the payload (\<open>groupFolder\<close>, \<open>isMain\<close>, \<open>createdBy\<close>, \<open>sender\<close>) are handled alike,
  as task requests and as message requests: the outcome and the whole state after the
  request are equal, so the decision to authorize is. It depends on the namespace
  (\<open>sourceGroup\<close>, \<open>isMain\<close>) and on the other fields only.
\<close>

theorem payload_identity_is_ignored:
  assumes "erase_identity d1 = erase_identity d2"
  shows "processTaskIpc e (JObj d1) sourceGroup isMain st
           = processTaskIpc e (JObj d2) sourceGroup isMain st
       \<and> handle_message e ipcBaseDir sourceGroup isMain filePath (JObj d1) st
           = handle_message e ipcBaseDir sourceGroup isMain filePath (JObj d2) st"
  using assms erase_task[of e d1 sourceGroup isMain st] erase_task[of e d2 sourceGroup isMain st]
    erase_message[of e ipcBaseDir sourceGroup isMain filePath d1 st]
    erase_message[of e ipcBaseDir sourceGroup isMain filePath d2 st]
  by simp

theorem payload_identity_is_ignored_witness:
  "erase_identity forged_register = erase_identity honest_register
   \<and> forged_register \<noteq> honest_register
   \<and> processTaskIpc env0 (JObj forged_register) ''alice'' False host0
       = processTaskIpc env0 (JObj honest_register) ''alice'' False host0
   \<and> processTaskIpc env0 (JObj forged_register) ''alice'' False host0 = (Returned, host0)"
  using payload_identity_is_ignored
    [of forged_register honest_register env0 "''alice''" False host0 "[''data'', ''ipc'']" "[]"]
  by (simp add: forged_register_def honest_register_def erase_identity_def no_data_def
        processTaskIpc_def ipc_register_group_def)

section \<open>The zone of a \<open>once\<close> value\<close>

lemma toISOString_in_range:
  assumes "- 8640000000000000 \<le> t" and "t \<le> 8640000000000000"
  shows "\<exists>r. toISOString t = Some r"
  using assms by (simp add: toISOString_def Let_def split_def)


text \<open>
  The configured zone has no part in what a \<open>once\<close> request does: the run is the same
  for every value of \<open>TIMEZONE\<close>.
\<close>

lemma once_ignores_TIMEZONE:
  assumes "d_schedule_type d = Some ''once''"
  shows "ipc_schedule_task (e\<lparr>TIMEZONE := z\<rparr>) d sourceGroup isMain st
           = ipc_schedule_task e d sourceGroup isMain st"
proof -
  have "computeNextRun (e\<lparr>TIMEZONE := z\<rparr>) ''once'' v = computeNextRun e ''once'' v" for v
    by (simp add: computeNextRun_def dateParse_def split: option.splits)
  then show ?thesis
    using assms
    by (simp add: ipc_schedule_task_def str_of_def Let_def
        split: next_run_result.splits option.splits)
qed

text \<open>
  What the code does with the value: an authorized \<open>schedule_task\<close> request of type
  \<open>once\<close> with the value \<open>2026-02-01T15:30:00\<close> adds exactly one task, whose \<open>next_run\<close>
  is that civil time read in the local time zone of the host process (\<open>localTZA\<close>), in
  canonical form.
\<close>

lemma once_next_run_in_local_zone:
  assumes "d_type d = Some ''schedule_task''"
    and "truthy (d_prompt d)"
    and "d_schedule_type d = Some ''once''"
    and "d_schedule_value d = Some ''2026-02-01T15:30:00''"
    and "truthy (d_targetJid d)"
    and "map_of (registeredGroups e) (str_of (d_targetJid d)) = Some g"
    and "isMain \<or> folder g = sourceGroup"
    and "\<bar>localTZA e 1769959800000\<bar> \<le> 86400000"
    and "toISOString (now e) = Some created"
  shows "\<exists>t. processTaskIpc e (JObj d) sourceGroup isMain st
               = (Returned, st\<lparr>tasks := tasks st @ [t]\<rparr>)
           \<and> next_run t = once_in_zone (localTZA e 1769959800000) ''2026-02-01T15:30:00''
           \<and> next_run t \<noteq> None
           \<and> schedule_type t = ''once'' \<and> group_folder t = Some (folder g)"
proof -
  have "- 8640000000000000 \<le> 1769959800000 - localTZA e 1769959800000"
    and "1769959800000 - localTZA e 1769959800000 \<le> 8640000000000000"
    using assms(8) by linarith+
  then obtain r where r: "toISOString (1769959800000 - localTZA e 1769959800000) = Some r"
    using toISOString_in_range by blast
  have dp: "dateParse e ''2026-02-01T15:30:00''
      = Some (1769959800000 - localTZA e 1769959800000)"
    by (simp add: dateParse_def parse_1530)
  have nr: "computeNextRun e ''once'' ''2026-02-01T15:30:00'' = NextRun (Some r)"
    by (simp add: computeNextRun_def dp r)
  have oz: "once_in_zone (localTZA e 1769959800000) ''2026-02-01T15:30:00'' = Some r"
    by (simp add: once_in_zone_def parse_1530 r)
  let ?t = "\<lparr>task_id = ''task-'' @ show_int (now e) @ ''-'' @ random36 e,
             group_folder = Some (folder g), chat_jid = str_of (d_targetJid d),
             prompt = str_of (d_prompt d), schedule_type = ''once'',
             schedule_value = ''2026-02-01T15:30:00'',
             context_mode = (if d_context_mode d = Some ''group''
                                \<or> d_context_mode d = Some ''isolated''
                             then str_of (d_context_mode d) else ''isolated''),
             next_run = Some r, status = ''active'', created_at = created\<rparr>"
  have guard: "\<not> (\<not> isMain \<and> folder g \<noteq> sourceGroup)"
    using assms(7) by blast
  have own: "js_get (registeredGroups e) (str_of (d_targetJid d)) = OwnProp g"
    using assms(6) by (simp add: js_get_def)
  have "ipc_schedule_task e d sourceGroup isMain st = (Returned, createTask ?t st)"
    unfolding ipc_schedule_task_def Let_def own
    using assms(2-5,9) nr guard by (auto simp: truthy_def str_of_def prop_folder_def)
  then have run: "processTaskIpc e (JObj d) sourceGroup isMain st
      = (Returned, st\<lparr>tasks := tasks st @ [?t]\<rparr>)"
    using assms(1) by (simp add: processTaskIpc_def createTask_def)
  have "next_run ?t = once_in_zone (localTZA e 1769959800000) ''2026-02-01T15:30:00''
      \<and> next_run ?t \<noteq> None \<and> schedule_type ?t = ''once''
      \<and> group_folder ?t = Some (folder g)"
    using oz by simp
  with run show ?thesis by blast
qed

text \<open>On the example host, whose process runs eight hours behind UTC.\<close>

lemma once_next_run_in_local_zone_example:
  "d_type (once_request ''dc:2'' ''2026-02-01T15:30:00'') = Some ''schedule_task''
   \<and> truthy (d_prompt (once_request ''dc:2'' ''2026-02-01T15:30:00''))
   \<and> d_schedule_type (once_request ''dc:2'' ''2026-02-01T15:30:00'') = Some ''once''
   \<and> map_of (registeredGroups env0) ''dc:2'' = Some (group_of ''Alice'' ''alice'')
   \<and> \<bar>localTZA env0 1769959800000\<bar> \<le> 86400000
   \<and> toISOString (now env0) = Some ''2026-01-01T00:00:00.000Z''
   \<and> map next_run (tasks (snd (processTaskIpc env0
        (JObj (once_request ''dc:2'' ''2026-02-01T15:30:00'')) ''alice'' False host0)))
      = [Some ''2026-02-01T23:30:00.000Z'']
   \<and> once_in_zone (localTZA env0 1769959800000) ''2026-02-01T15:30:00''
      = Some ''2026-02-01T23:30:00.000Z''"
  using once_next_run_in_local_zone
    [of "once_request ''dc:2'' ''2026-02-01T15:30:00''" env0 "group_of ''Alice'' ''alice''"
        False "''alice''" "''2026-01-01T00:00:00.000Z''" host0]
  by (simp add: eval_defs ipc_schedule_task_def computeNextRun_def createTask_def iso_now
        once_request_def once_in_zone_def dateParse_def parse_1530 iso_2330)

section \<open>The order in which request files are handled\<close>

lemma digit_at: "k < 10 \<Longrightarrow> of_char (''0123456789'' ! k) = (48 + k :: nat)"
proof -
  assume "k < 10"
  then have "k = 0 \<or> k = 1 \<or> k = 2 \<or> k = 3 \<or> k = 4 \<or> k = 5 \<or> k = 6
    \<or> k = 7 \<or> k = 8 \<or> k = 9"
    by arith
  then show ?thesis by auto
qed

lemma of_char_digit_char: "of_char (digit_char n) = (48 + n mod 10 :: nat)"
  by (simp add: digit_char_def digit_at)

lemma digit_char_less: "(digit_char m < digit_char n) = (m mod 10 < n mod 10)"
  by (simp add: less_char_def of_char_digit_char)

lemma show_nat_small: "n < 10 \<Longrightarrow> show_nat n = [digit_char n]"
  by (subst show_nat.simps) simp

lemma show_nat_large: "10 \<le> n \<Longrightarrow> show_nat n = show_nat (n div 10) @ [digit_char n]"
  by (subst show_nat.simps) simp

lemma show_nat_1: "show_nat (Suc 0) = ''1''"
  by (simp add: show_nat_small digit_char_def)

lemma length_show_nat_pos: "0 < length (show_nat n)"
  by (subst show_nat.simps) simp

lemma length_show_nat_one: "(length (show_nat n) = Suc 0) = (n < 10)"
  using length_show_nat_pos[of "n div 10"]
  by (cases "n < 10") (simp_all add: show_nat_small show_nat_large)

lemma append_less_same_length:
  "length xs = length ys \<Longrightarrow> xs < ys \<Longrightarrow> xs @ a < ys @ b"
  by (induction xs ys rule: list_induct2) auto

lemma append_same_less: "(xs @ a < xs @ b) = (a < (b :: 'a :: linorder list))"
  by (induction xs) simp_all

lemma show_nat_less:
  "m < n \<Longrightarrow> length (show_nat m) = length (show_nat n) \<Longrightarrow> show_nat m < show_nat n"
proof (induction n arbitrary: m rule: show_nat.induct)
  case (1 n)
  show ?case
  proof (cases "n < 10")
    case True
    then have "m < 10" using "1.prems" by simp
    then show ?thesis
      using True "1.prems" by (simp add: show_nat_small digit_char_less)
  next
    case False
    then have n: "show_nat n = show_nat (n div 10) @ [digit_char n]"
      by (simp add: show_nat_large)
    have "\<not> m < 10"
    proof
      assume "m < 10"
      then have "length (show_nat m) = Suc 0" by (simp add: length_show_nat_one)
      then have "length (show_nat n) = Suc 0" using "1.prems" by simp
      then show False using False by (simp add: length_show_nat_one)
    qed
    then have m: "show_nat m = show_nat (m div 10) @ [digit_char m]"
      by (simp add: show_nat_large)
    have len: "length (show_nat (m div 10)) = length (show_nat (n div 10))"
      using "1.prems" m n by simp
    have le: "m div 10 \<le> n div 10" using "1.prems" by (simp add: div_le_mono)
    show ?thesis
    proof (cases "m div 10 < n div 10")
      case True
      then have "show_nat (m div 10) < show_nat (n div 10)"
        using "1.IH"[OF False True len] by simp
      then show ?thesis using m n len by (simp add: append_less_same_length)
    next
      case eq: False
      then have e: "m div 10 = n div 10" using le by simp
      have "m mod 10 < n mod 10"
      proof (rule ccontr)
        assume "\<not> m mod 10 < n mod 10"
        then have "n mod 10 \<le> m mod 10" by simp
        then have "10 * (n div 10) + n mod 10 \<le> 10 * (m div 10) + m mod 10"
          using e by linarith
        then have "n \<le> m" by (simp only: mult_div_mod_eq)
        then show False using "1.prems" by simp
      qed
      then have "[digit_char m] < [digit_char n]" by (simp add: digit_char_less)
      then show ?thesis using m n e by (simp only: append_same_less)
    qed
  qed
qed

lemma ipc_filename_less:
  assumes "0 \<le> t1" and "t1 < t2" and "length (show_int t1) = length (show_int t2)"
  shows "ipc_filename t1 r1 < ipc_filename t2 r2"
proof -
  have "show_nat (nat t1) < show_nat (nat t2)"
    using assms by (intro show_nat_less) (simp_all add: show_int_def)
  then show ?thesis
    using assms by (simp add: ipc_filename_def show_int_def append_less_same_length)
qed

lemma sorted_json_files: "sorted (json_files f dir) \<and> distinct (json_files f dir)"
  by (simp add: json_files_def readdirSync_def sorted_wrt_filter)

lemma sorted_before:
  assumes "sorted xs" and "a \<in> set xs" and "b \<in> set xs" and "a < b"
  shows "before a b xs"
  using assms
proof (induction xs)
  case Nil
  then show ?case by simp
next
  case (Cons x xs)
  show ?case
  proof (cases "x = a")
    case True
    then show ?thesis using Cons.prems by (auto simp: before_def)
  next
    case False
    then have "a \<in> set xs" using Cons.prems by simp
    moreover have "b \<in> set xs"
    proof (rule ccontr)
      assume "b \<notin> set xs"
      then have "b = x" using Cons.prems by simp
      then have "b \<le> a" using Cons.prems(1) \<open>a \<in> set xs\<close> by simp
      then show False using Cons.prems(4) by simp
    qed
    ultimately have "before a b xs" using Cons by simp
    then show ?thesis using False by (simp add: before_def)
  qed
qed

lemma processMessageFiles_in_order:
  "in_order (\<lambda>ok. ok) (processMessageFile e b s m) files st
     (processMessageFiles e b s m files st)"
proof (induction files arbitrary: st)
  case Nil
  show ?case by (simp add: in_order.finished)
next
  case (Cons f files)
  obtain ok st1 where h: "processMessageFile e b s m f st = (ok, st1)"
    by (cases "processMessageFile e b s m f st")
  show ?case
  proof (cases ok)
    case True
    then have "processMessageFiles e b s m (f # files) st
        = processMessageFiles e b s m files st1"
      using h by simp
    then show ?thesis
      using in_order.continued[of "processMessageFile e b s m" f st ok st1 "\<lambda>ok. ok"]
        h True Cons.IH[of st1] by simp
  next
    case False
    then have "processMessageFiles e b s m (f # files) st = st1"
      using h by simp
    then show ?thesis
      using in_order.stopped[of "processMessageFile e b s m" f st ok st1 "\<lambda>ok. ok"]
        h False by simp
  qed
qed

lemma processTaskFiles_in_order:
  "in_order (\<lambda>r. r = Returned) (processTaskFile e b s m) files st
     (snd (processTaskFiles e b s m files st))"
proof (induction files arbitrary: st)
  case Nil
  show ?case by (simp add: in_order.finished)
next
  case (Cons f files)
  obtain r st1 where h: "processTaskFile e b s m f st = (r, st1)"
    by (cases "processTaskFile e b s m f st")
  show ?case
  proof (cases "r = Returned")
    case True
    then have "processTaskFiles e b s m (f # files) st
        = processTaskFiles e b s m files st1"
      using h by simp
    then show ?thesis
      using in_order.continued[of "processTaskFile e b s m" f st r st1 "\<lambda>r. r = Returned"]
        h True Cons.IH[of st1] by simp
  next
    case False
    then have "snd (processTaskFiles e b s m (f # files) st) = st1"
      using h by (cases r) simp_all
    then show ?thesis
      using in_order.stopped[of "processTaskFile e b s m" f st r st1 "\<lambda>r. r = Returned"]
        h False by simp
  qed
qed

lemma processMessages_listing:
  "processMessages e b s m st =
     processMessageFiles e b s m
       (json_files (fs st) (path_join (path_join b s) ''messages'')) st"
  by (simp add: processMessages_def Let_def readdirSync_def json_files_def existsSync_def
      isDirectory_def)

lemma processTasks_listing:
  "snd (processTasks e b s m st) =
     snd (processTaskFiles e b s m
            (json_files (fs st) (path_join (path_join b s) ''tasks'')) st)"
  by (simp add: processTasks_def Let_def readdirSync_def json_files_def existsSync_def
      isDirectory_def split: prod.splits outcome.splits)

text \<open>
  C7, as the claim states it: the files of a queue are processed in file name order, so
  that a request whose name embeds an earlier creation time is acted on before one
  with a later time. The order of the names is the order of their bytes, and the time
  is written in decimal with no leading zeros, so the name of a later time comes first
  when it has more digits. Here the main namespace holds a message written at the time
  9999999999999 and one written a millisecond later, at 10000000000000: the poll sends
  the later message first.
\<close>

theorem later_timestamp_handled_first:
  "ipc_filename 9999999999999 ''aaaaaa'' = ''9999999999999-aaaaaa.json''
   \<and> ipc_filename 10000000000000 ''bbbbbb'' = ''10000000000000-bbbbbb.json''
   \<and> trace (snd (processIpcFiles env0
        \<lparr>fs = mailbox ''main'' ''messages''
           [(''9999999999999-aaaaaa.json'', JObj (message_to ''dc:1'' ''first'')),
            (''10000000000000-bbbbbb.json'', JObj (message_to ''dc:1'' ''second''))],
         tasks = [], trace = []\<rparr>))
     = [ReadFile [''data'', ''ipc'', ''main'', ''messages'', ''10000000000000-bbbbbb.json''],
        SendMessage ''dc:1'' ''second'' [],
        ReadFile [''data'', ''ipc'', ''main'', ''messages'', ''9999999999999-aaaaaa.json''],
        SendMessage ''dc:1'' ''first'' []]"
  by (simp add: eval_defs ipc_filename_def show_int_def show_nat.simps[of "numeral k" for k]
      show_nat_1 digit_char_def)

text \<open>
  C7, amended: the pending request files of a queue directory are its names that end in
  \<open>.json\<close>, each once, in ascending order of their bytes. In a poll the files of the
  messages queue and of the tasks queue of a namespace are handled one after another in
  that order, each in the state the one before it left, up to the end of the list or to
  the first file that ends the loop (an error handler that fails itself, a request that
  ends the process). Of two pending files named by \<open>writeIpcFile\<close> at the times
  \<open>t1 < t2\<close>, neither negative and both with the same number of decimal digits, the
  file of \<open>t1\<close> comes first.
\<close>

theorem requests_handled_in_name_order:
  "sorted (json_files (fs st) dir) \<and> distinct (json_files (fs st) dir)
   \<and> in_order (\<lambda>ok. ok) (processMessageFile e b s m)
        (json_files (fs st) (path_join (path_join b s) ''messages'')) st
        (processMessages e b s m st)
   \<and> in_order (\<lambda>r. r = Returned) (processTaskFile e b s m)
        (json_files (fs st) (path_join (path_join b s) ''tasks'')) st
        (snd (processTasks e b s m st))
   \<and> (0 \<le> t1 \<and> t1 < t2 \<and> length (show_int t1) = length (show_int t2)
        \<and> ipc_filename t1 r1 \<in> set (json_files (fs st) dir)
        \<and> ipc_filename t2 r2 \<in> set (json_files (fs st) dir)
      \<longrightarrow> before (ipc_filename t1 r1) (ipc_filename t2 r2) (json_files (fs st) dir))"
proof -
  have "in_order (\<lambda>ok. ok) (processMessageFile e b s m)
        (json_files (fs st) (path_join (path_join b s) ''messages'')) st
        (processMessages e b s m st)"
    by (simp only: processMessages_listing processMessageFiles_in_order)
  moreover have "in_order (\<lambda>r. r = Returned) (processTaskFile e b s m)
        (json_files (fs st) (path_join (path_join b s) ''tasks'')) st
        (snd (processTasks e b s m st))"
    by (simp only: processTasks_listing processTaskFiles_in_order)
  moreover have "before (ipc_filename t1 r1) (ipc_filename t2 r2) (json_files (fs st) dir)"
    if "0 \<le> t1" "t1 < t2" "length (show_int t1) = length (show_int t2)"
      "ipc_filename t1 r1 \<in> set (json_files (fs st) dir)"
      "ipc_filename t2 r2 \<in> set (json_files (fs st) dir)"
    using that sorted_json_files[of "fs st" dir] ipc_filename_less[of t1 t2 r1 r2]
    by (intro sorted_before) simp_all
  ultimately show ?thesis
    using sorted_json_files[of "fs st" dir] by blast
qed

theorem requests_handled_in_name_order_witness:
  "(0::int) \<le> 1767225600001 \<and> (1767225600001::int) < 1767225600002
   \<and> length (show_int 1767225600001) = length (show_int 1767225600002)
   \<and> ipc_filename 1767225600001 ''aaaaaa'' = ''1767225600001-aaaaaa.json''
   \<and> ipc_filename 1767225600002 ''bbbbbb'' = ''1767225600002-bbbbbb.json''
   \<and> json_files
        (mailbox ''main'' ''messages''
           [(''1767225600002-bbbbbb.json'', JObj (message_to ''dc:1'' ''second'')),
            (''1767225600001-aaaaaa.json'', JObj (message_to ''dc:1'' ''first''))])
        [''data'', ''ipc'', ''main'', ''messages'']
      = [''1767225600001-aaaaaa.json'', ''1767225600002-bbbbbb.json'']
   \<and> before ''1767225600001-aaaaaa.json'' ''1767225600002-bbbbbb.json''
        (json_files
           (mailbox ''main'' ''messages''
              [(''1767225600002-bbbbbb.json'', JObj (message_to ''dc:1'' ''second'')),
               (''1767225600001-aaaaaa.json'', JObj (message_to ''dc:1'' ''first''))])
           [''data'', ''ipc'', ''main'', ''messages''])
   \<and> trace (processMessages env0 [''data'', ''ipc''] ''main'' True
        \<lparr>fs = mailbox ''main'' ''messages''
           [(''1767225600002-bbbbbb.json'', JObj (message_to ''dc:1'' ''second'')),
            (''1767225600001-aaaaaa.json'', JObj (message_to ''dc:1'' ''first''))],
         tasks = [], trace = []\<rparr>)
     = [ReadFile [''data'', ''ipc'', ''main'', ''messages'', ''1767225600001-aaaaaa.json''],
        SendMessage ''dc:1'' ''first'' [],
        ReadFile [''data'', ''ipc'', ''main'', ''messages'', ''1767225600002-bbbbbb.json''],
        SendMessage ''dc:1'' ''second'' []]"
  using requests_handled_in_name_order
    [of "\<lparr>fs = mailbox ''main'' ''messages''
           [(''1767225600002-bbbbbb.json'', JObj (message_to ''dc:1'' ''second'')),
            (''1767225600001-aaaaaa.json'', JObj (message_to ''dc:1'' ''first''))],
         tasks = [], trace = []\<rparr>"
        "[''data'', ''ipc'', ''main'', ''messages'']" env0 "[''data'', ''ipc'']" "''main''" True
        1767225600001 1767225600002 "''aaaaaa''" "''bbbbbb''"]
  by (simp add: eval_defs ipc_filename_def show_int_def show_nat.simps[of "numeral k" for k]
      show_nat_1 digit_char_def before_def)

section \<open>Delivery of messages\<close>

lemma sent_append: "sent (a @ b) = sent a @ sent b"
  by (induction a rule: sent.induct) simp_all

lemma own_folder_iff:
  "(prop_folder (js_get regs k) = Some s) = (\<exists>g. map_of regs k = Some g \<and> folder g = s)"
  by (simp add: prop_folder_def js_get_def split: option.splits)

lemma unlinkSync_gone:
  "unlinkSync f p = Some f' \<Longrightarrow> \<not> existsSync f' p \<and> f' = filter (\<lambda>(q, n). q \<noteq> p) f"
  by (auto simp: unlinkSync_def existsSync_def map_of_eq_None_iff
      split: option.splits node.splits)

text \<open>
  C8, as the claim states it: a request of type \<open>message\<close> is delivered iff its
  namespace is the privileged one or the target chat belongs to the namespace. The
  watcher first tests \<open>data.chatJid && data.text\<close>: a request with an empty text is
  consumed without a send, also from the privileged namespace.
\<close>

theorem empty_text_from_main_not_delivered:
  "''main'' = MAIN_GROUP_FOLDER env0
   \<and> sent (trace (snd (processIpcFiles env0
        \<lparr>fs = mailbox ''main'' ''messages''
           [(''1767225600001-aaaaaa.json'', JObj (message_to ''dc:2'' []))],
         tasks = [], trace = []\<rparr>))) = []"
  by (simp add: eval_defs)

text \<open>
  C8, amended: a request of type \<open>message\<close> is handed to \<open>deps.sendMessage\<close> iff it has
  a non-empty \<open>chatJid\<close> and a non-empty \<open>text\<close> and its namespace is the privileged one
  or the chat id resolves to a registered group whose folder is the namespace. In every
  other case nothing is sent and the request is consumed, from any namespace: its file
  is deleted, with no error, and nothing else in the file system changes.
\<close>

theorem message_delivered_iff_authorized:
  assumes "readFileSync (fs st) filePath = Some (JObj d)"
    and "d_type d = Some ''message''"
  shows "sent (trace (snd (message_try e ipcBaseDir sourceGroup
                             (sourceGroup = MAIN_GROUP_FOLDER e) filePath st)))
       = sent (trace st)
         @ (if truthy (d_chatJid d) \<and> truthy (d_text d)
               \<and> (sourceGroup = MAIN_GROUP_FOLDER e
                  \<or> (\<exists>g. map_of (registeredGroups e) (str_of (d_chatJid d)) = Some g
                         \<and> folder g = sourceGroup))
            then [(str_of (d_chatJid d), str_of (d_text d),
                   resolvedFiles (fs st)
                     (path_join (path_join ipcBaseDir sourceGroup) ''attachments'')
                     (d_files d))]
            else [])
     \<and> (\<not> (truthy (d_chatJid d) \<and> truthy (d_text d)
            \<and> (sourceGroup = MAIN_GROUP_FOLDER e
               \<or> (\<exists>g. map_of (registeredGroups e) (str_of (d_chatJid d)) = Some g
                      \<and> folder g = sourceGroup)))
        \<longrightarrow> fst (message_try e ipcBaseDir sourceGroup
                   (sourceGroup = MAIN_GROUP_FOLDER e) filePath st)
          \<and> \<not> existsSync (fs (snd (message_try e ipcBaseDir sourceGroup
                   (sourceGroup = MAIN_GROUP_FOLDER e) filePath st))) filePath
          \<and> fs (snd (message_try e ipcBaseDir sourceGroup
                   (sourceGroup = MAIN_GROUP_FOLDER e) filePath st))
            = filter (\<lambda>(q, n). q \<noteq> filePath) (fs st))"
proof -
  let ?auth = "sourceGroup = MAIN_GROUP_FOLDER e
     \<or> (\<exists>g. map_of (registeredGroups e) (str_of (d_chatJid d)) = Some g
            \<and> folder g = sourceGroup)"
  let ?go = "truthy (d_chatJid d) \<and> truthy (d_text d) \<and> ?auth"
  let ?st0 = "emit (ReadFile filePath) st"
  let ?R = "message_try e ipcBaseDir sourceGroup (sourceGroup = MAIN_GROUP_FOLDER e)
              filePath st"
  have isfile: "\<exists>c. map_of (fs st) filePath = Some (File c)"
    using assms(1) by (auto simp: readFileSync_def split: option.splits node.splits)
  then have un: "unlink_request filePath ?st0
      = (True, ?st0\<lparr>fs := filter (\<lambda>(q, n). q \<noteq> filePath) (fs st)\<rparr>)"
    by (auto simp: unlink_request_def unlinkSync_def emit_def)
  have gone: "\<not> existsSync (filter (\<lambda>(q, n). q \<noteq> filePath) (fs st)) filePath"
    by (auto simp: existsSync_def map_of_eq_None_iff)
  have auth: "(sourceGroup = MAIN_GROUP_FOLDER e
        \<or> prop_folder (js_get (registeredGroups e) (str_of (d_chatJid d))) = Some sourceGroup)
      = ?auth"
    by (simp only: own_folder_iff)
  show ?thesis
  proof (cases ?go)
    case True
    then have "sent (trace (snd ?R))
        = sent (trace st)
          @ [(str_of (d_chatJid d), str_of (d_text d),
              resolvedFiles (fs st)
                (path_join (path_join ipcBaseDir sourceGroup) ''attachments'') (d_files d))]"
      using assms auth
      by (auto simp: message_try_def handle_message_def Let_def emit_def sent_append
          unlink_request_def split: option.splits)
    then show ?thesis using True by simp
  next
    case False
    then have "?R = unlink_request filePath ?st0"
      using assms auth by (auto simp: message_try_def handle_message_def Let_def)
    then have "?R = (True, ?st0\<lparr>fs := filter (\<lambda>(q, n). q \<noteq> filePath) (fs st)\<rparr>)"
      using un by simp
    then show ?thesis using False gone by (simp add: emit_def sent_append)
  qed
qed

theorem message_delivered_iff_authorized_witness:
  "readFileSync (mailbox ''alice'' ''messages'' [(''1.json'', JObj (message_to ''dc:2'' ''hi''))])
       [''data'', ''ipc'', ''alice'', ''messages'', ''1.json'']
     = Some (JObj (message_to ''dc:2'' ''hi''))
   \<and> d_type (message_to ''dc:2'' ''hi'') = Some ''message''
   \<and> sent (trace (snd (message_try env0 [''data'', ''ipc''] ''alice''
        (''alice'' = MAIN_GROUP_FOLDER env0)
        [''data'', ''ipc'', ''alice'', ''messages'', ''1.json'']
        \<lparr>fs = mailbox ''alice'' ''messages'' [(''1.json'', JObj (message_to ''dc:2'' ''hi''))],
         tasks = [], trace = []\<rparr>)))
     = [(''dc:2'', ''hi'', [])]
   \<and> sent (trace (snd (message_try env0 [''data'', ''ipc''] ''alice''
        (''alice'' = MAIN_GROUP_FOLDER env0)
        [''data'', ''ipc'', ''alice'', ''messages'', ''1.json'']
        \<lparr>fs = mailbox ''alice'' ''messages'' [(''1.json'', JObj (message_to ''dc:3'' ''hi''))],
         tasks = [], trace = []\<rparr>)))
     = []
   \<and> \<not> truthy (d_text (message_to ''dc:2'' []))
   \<and> message_try env0 [''data'', ''ipc''] ''main'' (''main'' = MAIN_GROUP_FOLDER env0)
        [''data'', ''ipc'', ''main'', ''messages'', ''1.json'']
        \<lparr>fs = mailbox ''main'' ''messages'' [(''1.json'', JObj (message_to ''dc:2'' []))],
         tasks = [], trace = []\<rparr>
     = (True,
        \<lparr>fs = mailbox ''main'' ''messages'' [], tasks = [],
         trace = [ReadFile [''data'', ''ipc'', ''main'', ''messages'', ''1.json'']]\<rparr>)"
  using message_delivered_iff_authorized
    [of "\<lparr>fs = mailbox ''alice'' ''messages'' [(''1.json'', JObj (message_to ''dc:2'' ''hi''))],
         tasks = [], trace = []\<rparr>"
        "[''data'', ''ipc'', ''alice'', ''messages'', ''1.json'']"
        "message_to ''dc:2'' ''hi''" env0 "[''data'', ''ipc'']" "''alice''"]
    message_delivered_iff_authorized
    [of "\<lparr>fs = mailbox ''alice'' ''messages'' [(''1.json'', JObj (message_to ''dc:3'' ''hi''))],
         tasks = [], trace = []\<rparr>"
        "[''data'', ''ipc'', ''alice'', ''messages'', ''1.json'']"
        "message_to ''dc:3'' ''hi''" env0 "[''data'', ''ipc'']" "''alice''"]
    message_delivered_iff_authorized
    [of "\<lparr>fs = mailbox ''main'' ''messages'' [(''1.json'', JObj (message_to ''dc:2'' []))],
         tasks = [], trace = []\<rparr>"
        "[''data'', ''ipc'', ''main'', ''messages'', ''1.json'']"
        "message_to ''dc:2'' []" env0 "[''data'', ''ipc'']" "''main''"]
  by (simp add: eval_defs)

end
